theory Spec2Isabelle
  imports Complex_Main "HOL-Library.Word"
begin

section \<open>CityDreamer dataset generation: a shallow embedding\<close>

text \<open>
  The functions of \<^verbatim>\<open>utils/dataset_generator.py\<close> and
  \<^verbatim>\<open>utils/osm_image_fetcher.py\<close> as HOL functions. Python exceptions are
  values of the type \<open>error\<close>; a function that may raise returns \<open>error + 'a\<close>.
  Floating-point numbers are idealised as reals. Names that start with an underscore
  in the source lose it here (\<^verbatim>\<open>_tag_equals\<close> is \<open>tag_equals\<close>).
\<close>

datatype error =
    UnknownMapName string
  | AssertionError
  | ValueError
  | IndexError

subsection \<open>Feature Classifier\<close>

type_synonym tags = "string \<rightharpoonup> string"

text \<open>\<^verbatim>\<open>_tag_equals(tags, key, values=None)\<close>: \<open>None\<close> for \<open>values\<close> is the
  default argument.\<close>

definition tag_equals :: "tags \<Rightarrow> string \<Rightarrow> string list option \<Rightarrow> bool" where
  "tag_equals tgs key vals =
     (case tgs key of
        None \<Rightarrow> False
      | Some v \<Rightarrow> (case vals of None \<Rightarrow> True | Some vs \<Rightarrow> v \<in> set vs))"

definition get_highway_color :: "string \<Rightarrow> tags \<Rightarrow> error + int option" where
  "get_highway_color map_name highway_tags =
     (if map_name = ''height_field'' then Inr (Some 0)
      else if map_name = ''seg_map'' then Inr (Some 1)
      else Inl (UnknownMapName map_name))"

text \<open>Python's \<^verbatim>\<open>int(r)\<close> on a float truncates towards zero.\<close>

definition py_int :: "real \<Rightarrow> int" where
  "py_int r = (if 0 \<le> r then \<lfloor>r\<rfloor> else \<lceil>r\<rceil>)"

text \<open>
  \<^verbatim>\<open>_get_footprint_color(map_name, footprint_tags)\<close>. The result \<open>Inr None\<close> is
  Python's \<^verbatim>\<open>None\<close> ("do not paint"). The parameter \<open>to_float\<close> stands for
  Python's \<^verbatim>\<open>float(s)\<close> on a tag value, \<open>None\<close> where it raises.
\<close>

definition get_footprint_color ::
  "(string \<Rightarrow> real option) \<Rightarrow> string \<Rightarrow> tags \<Rightarrow> error + int option" where
  "get_footprint_color to_float map_name footprint_tags =
     (if map_name = ''height_field'' then
        (if tag_equals footprint_tags ''role'' (Some [''inner'']) then Inr None
         else if tag_equals footprint_tags ''building'' (Some [''roof'']) then Inr None
         else if tag_equals footprint_tags ''landuse'' (Some [''construction'']) then Inr (Some 10)
         else (case footprint_tags ''height'' of
                 None \<Rightarrow> Inl AssertionError
               | Some s \<Rightarrow> (case to_float s of
                              None \<Rightarrow> Inl ValueError
                            | Some r \<Rightarrow> Inr (Some (py_int (r + 1 / 2))))))
      else if map_name = ''seg_map'' then
        (if tag_equals footprint_tags ''role'' (Some [''inner'']) then Inr (Some 2)
         else if tag_equals footprint_tags ''building'' None then Inr (Some 2)
         else if tag_equals footprint_tags ''landuse'' (Some [''construction'']) then Inr (Some 4)
         else Inr (Some 0))
      else if map_name = ''footprint_contour'' then
        (if tag_equals footprint_tags ''building'' None then Inr (Some 1)
         else Inr (Some 0))
      else Inl (UnknownMapName map_name))"

subsection \<open>Rasters and patch extraction\<close>

text \<open>
  A two-dimensional numpy array is a list of rows. \<open>shape_h\<close> and \<open>shape_w\<close>
  read \<^verbatim>\<open>img.shape\<close>.
\<close>

type_synonym 'a raster = "'a list list"

definition shape_h :: "'a raster \<Rightarrow> nat" where
  "shape_h img = length img"

definition shape_w :: "'a raster \<Rightarrow> nat" where
  "shape_w img = (case img of [] \<Rightarrow> 0 | row # _ \<Rightarrow> length row)"

text \<open>
  Python's slice \<^verbatim>\<open>xs[a:b]\<close>: a negative bound counts from the end, and both
  bounds are then cut to the range \<open>0 .. len(xs)\<close>; the slice is empty when the
  start is not below the stop.
\<close>

definition slice_bound :: "int \<Rightarrow> nat \<Rightarrow> nat" where
  "slice_bound k n = (if k < 0 then nat (max 0 (k + int n)) else min (nat k) n)"

definition py_slice :: "'a list \<Rightarrow> int \<Rightarrow> int \<Rightarrow> 'a list" where
  "py_slice xs a b =
     (let s = slice_bound a (length xs); e = slice_bound b (length xs)
      in take (e - s) (drop s xs))"

datatype log_entry =
    HorizontalCenterError int
  | VerticalCenterError int

text \<open>
  \<^verbatim>\<open>_get_img_patch(img, cx, cy, patch_size)\<close>, returning the patch and the
  messages passed to \<^verbatim>\<open>logging.error\<close>, in order.
\<close>

definition get_img_patch ::
  "int raster \<Rightarrow> int \<Rightarrow> int \<Rightarrow> int \<Rightarrow> int raster \<times> log_entry list" where
  "get_img_patch img cx cy patch_size =
     (let h = int (shape_h img); w = int (shape_w img);
          x_s = cx - patch_size div 2; x_e = cx + patch_size div 2;
          h_s = cy - patch_size div 2; h_e = cy + patch_size div 2;
          x_out = (x_s < 0 \<or> x_e \<ge> w);
          x_s' = (if x_out then (if x_s < 0 then 0 else x_s) else x_s);
          x_e' = (if x_out then (if x_e \<ge> w then 0 else x_e) else x_e);
          h_out = (h_s < 0 \<or> h_e \<ge> h);
          h_s' = (if h_out then (if h_s < 0 then 0 else h_s) else h_s);
          h_e' = (if h_out then (if h_e \<ge> h then 0 else h_e) else h_e)
      in (map (\<lambda>row. py_slice row x_s' x_e') (py_slice img h_s' h_e'),
          (if x_out then [HorizontalCenterError cx] else [])
          @ (if h_out then [VerticalCenterError cy] else [])))"

subsection \<open>Mask Cleaner\<close>

text \<open>
  \<open>tabulate2 h w f\<close> is the array of shape \<open>(h, w)\<close> with \<open>f i j\<close> at row
  \<open>i\<close>, column \<open>j\<close>; the element-wise numpy and OpenCV operations are written
  with it. \<open>is_raster\<close> says that all rows have the same length.
\<close>

definition tabulate2 :: "nat \<Rightarrow> nat \<Rightarrow> (nat \<Rightarrow> nat \<Rightarrow> 'a) \<Rightarrow> 'a raster" where
  "tabulate2 h w f = map (\<lambda>i. map (\<lambda>j. f i j) [0..<w]) [0..<h]"

definition is_raster :: "'a raster \<Rightarrow> bool" where
  "is_raster img = (\<forall>row \<in> set img. length row = shape_w img)"

definition zeros :: "nat \<Rightarrow> nat \<Rightarrow> 'a::zero raster" where
  "zeros h w = tabulate2 h w (\<lambda>i j. 0)"

text \<open>
  \<^verbatim>\<open>cv2.erode(mask, np.ones((5, 5)))\<close>: the minimum over the 5 x 5 window
  centred at the pixel. With OpenCV's default border the positions outside the
  image do not take part in the minimum. Mask values are bytes, read here as
  natural numbers.
\<close>

definition window5 :: "nat \<Rightarrow> nat \<Rightarrow> nat \<Rightarrow> nat \<Rightarrow> (nat \<times> nat) list" where
  "window5 h w i j =
     List.product [i - 2 ..< min h (i + 3)] [j - 2 ..< min w (j + 3)]"

definition erode5 :: "nat raster \<Rightarrow> nat raster" where
  "erode5 msk =
     (let h = shape_h msk; w = shape_w msk
      in tabulate2 h w
           (\<lambda>i j. fold min (map (\<lambda>(r, c). msk ! r ! c) (window5 h w i j)) (msk ! i ! j)))"

text \<open>
  \<^verbatim>\<open>cv2.connectedComponentsWithStats(mask, connectivity=4)\<close>. A pixel is
  foreground when it is nonzero. \<open>component msk p\<close> lists the pixels of the
  4-connected component of the foreground pixel \<open>p\<close>, found by a breadth-first
  flood from \<open>p\<close>; the number of pixels bounds the number of rounds.
  \<open>cc_area msk p\<close> is \<^verbatim>\<open>stats[labels[p], -1]\<close>, the area of the label
  of \<open>p\<close>: the size of its component for a foreground pixel, and the number of
  background pixels for a background pixel (label 0).
\<close>

definition fg :: "nat raster \<Rightarrow> nat \<times> nat \<Rightarrow> bool" where
  "fg msk p = (case p of (i, j) \<Rightarrow> i < shape_h msk \<and> j < shape_w msk \<and> msk ! i ! j \<noteq> 0)"

definition neighbours4 :: "nat \<times> nat \<Rightarrow> (nat \<times> nat) list" where
  "neighbours4 p =
     (case p of (i, j) \<Rightarrow>
        (if 0 < i then [(i - 1, j)] else []) @ (if 0 < j then [(i, j - 1)] else [])
        @ [(i, j + 1), (i + 1, j)])"

fun flood :: "nat raster \<Rightarrow> nat \<Rightarrow> (nat \<times> nat) list \<Rightarrow> (nat \<times> nat) list \<Rightarrow> (nat \<times> nat) list" where
  "flood msk 0 seen frontier = seen"
| "flood msk (Suc n) seen frontier =
     (let new = remdups (filter (\<lambda>q. fg msk q \<and> q \<notin> set seen)
                           (concat (map neighbours4 frontier)))
      in if new = [] then seen else flood msk n (seen @ new) new)"

definition component :: "nat raster \<Rightarrow> nat \<times> nat \<Rightarrow> (nat \<times> nat) list" where
  "component msk p = flood msk (shape_h msk * shape_w msk) [p] [p]"

definition all_pixels :: "'a raster \<Rightarrow> (nat \<times> nat) list" where
  "all_pixels img = List.product [0 ..< shape_h img] [0 ..< shape_w img]"

definition count_nonzero :: "nat raster \<Rightarrow> nat" where
  "count_nonzero msk = length (filter (fg msk) (all_pixels msk))"

definition cc_area :: "nat raster \<Rightarrow> nat \<times> nat \<Rightarrow> nat" where
  "cc_area msk p =
     (if fg msk p then length (component msk p)
      else length (all_pixels msk) - count_nonzero msk)"

text \<open>
  \<^verbatim>\<open>_remove_mask_outliers(mask)\<close>. \<open>ignored_mask\<close> is
  \<^verbatim>\<open>np.isin(labels, ignored_indexes)\<close>: a pixel is ignored when the area of
  its label is at most the threshold. The result multiplies the eroded mask by the
  negated \<open>ignored_mask\<close>.
\<close>

definition N_PIXELS_THRES :: nat where
  "N_PIXELS_THRES = 96"

definition ignored_mask :: "nat raster \<Rightarrow> bool raster" where
  "ignored_mask msk =
     tabulate2 (shape_h msk) (shape_w msk) (\<lambda>i j. cc_area msk (i, j) \<le> N_PIXELS_THRES)"

definition remove_mask_outliers :: "nat raster \<Rightarrow> nat raster" where
  "remove_mask_outliers msk0 =
     (let msk = erode5 msk0;
          ignored = ignored_mask msk
      in tabulate2 (shape_h msk) (shape_w msk)
           (\<lambda>i j. msk ! i ! j * (if ignored ! i ! j then 0 else 1)))"

text \<open>A 12 x 22 mask holding a solid 10 x 20 rectangle of 255 with background around
  it, a row of 97 pixels of 255, and a 3 x 3 mask with one pixel set.\<close>

definition blob200 :: "nat raster" where
  "blob200 = replicate 22 0 # replicate 10 (0 # replicate 20 255 @ [0]) @ [replicate 22 0]"

definition row97 :: "nat raster" where
  "row97 = [replicate 97 255]"

definition dot3 :: "nat raster" where
  "dot3 = [[0, 0, 0], [0, 255, 0], [0, 0, 0]]"

subsection \<open>Environment masks\<close>

text \<open>
  A tile image read by \<^verbatim>\<open>cv2.imread\<close> is an array of (blue, green, red)
  bytes. \<open>in_range\<close> is \<^verbatim>\<open>cv2.inRange\<close>: 255 where every channel lies
  between the bounds, 0 elsewhere. \<^verbatim>\<open>cv2.resize\<close> is the parameter
  \<open>resize\<close>; its second argument is \<^verbatim>\<open>dsize\<close>, (width, height).
\<close>

type_synonym bgr = "nat \<times> nat \<times> nat"

definition in_range :: "bgr raster \<Rightarrow> bgr \<Rightarrow> bgr \<Rightarrow> nat raster" where
  "in_range img lb ub =
     (case lb of (lb0, lb1, lb2) \<Rightarrow>
      case ub of (ub0, ub1, ub2) \<Rightarrow>
        map (map (\<lambda>(b, g, r).
          if lb0 \<le> b \<and> b \<le> ub0 \<and> lb1 \<le> g \<and> g \<le> ub1 \<and> lb2 \<le> r \<and> r \<le> ub2
          then 255 else 0)) img)"

definition get_coast_zones ::
  "(nat raster \<Rightarrow> nat \<times> nat \<Rightarrow> nat raster) \<Rightarrow> bgr raster \<Rightarrow> nat \<times> nat \<Rightarrow> nat raster" where
  "get_coast_zones resize tile_img img_size =
     (let water_lb = (219, 219, 195);
          water_ub = (235, 235, 219);
          msk = resize (in_range tile_img water_lb water_ub) (snd img_size, fst img_size)
      in remove_mask_outliers msk)"

text \<open>
  The element-wise product of two arrays. numpy raises \<^verbatim>\<open>ValueError\<close> when
  the shapes cannot be combined; here the shapes have to be equal.
\<close>

definition raster_mul :: "nat raster \<Rightarrow> nat raster \<Rightarrow> error + nat raster" where
  "raster_mul a b =
     (if shape_h a = shape_h b \<and> shape_w a = shape_w b
      then Inr (tabulate2 (shape_h a) (shape_w a) (\<lambda>i j. a ! i ! j * b ! i ! j))
      else Inl ValueError)"

definition get_green_lands ::
  "(nat raster \<Rightarrow> nat \<times> nat \<Rightarrow> nat raster) \<Rightarrow> bgr raster \<Rightarrow> int raster \<Rightarrow> error + nat raster" where
  "get_green_lands resize tile_img seg_map =
     (let green_lb = (209, 217, 217);
          green_ub = (219, 236, 233);
          uncategoried = tabulate2 (shape_h seg_map) (shape_w seg_map)
                           (\<lambda>i j. if seg_map ! i ! j = 0 then 1 else 0);
          msk = resize (in_range tile_img green_lb green_ub) (shape_w seg_map, shape_h seg_map)
      in raster_mul (remove_mask_outliers msk) uncategoried)"

subsection \<open>Layer Compositor\<close>

text \<open>
  \<open>bind_err\<close> passes an exception on. \<open>assign_where img msk v\<close> is
  \<^verbatim>\<open>img[msk != 0] = v\<close>, which raises \<^verbatim>\<open>IndexError\<close> when the shapes
  differ; \<open>assign_eq img a b\<close> is \<^verbatim>\<open>img[img == a] = b\<close>.
\<close>

definition bind_err :: "error + 'a \<Rightarrow> ('a \<Rightarrow> error + 'b) \<Rightarrow> error + 'b" where
  "bind_err m f = (case m of Inl e \<Rightarrow> Inl e | Inr x \<Rightarrow> f x)"

definition assign_where :: "'a raster \<Rightarrow> nat raster \<Rightarrow> 'a \<Rightarrow> error + 'a raster" where
  "assign_where img msk v =
     (if shape_h msk = shape_h img \<and> shape_w msk = shape_w img
      then Inr (tabulate2 (shape_h img) (shape_w img)
                  (\<lambda>i j. if msk ! i ! j \<noteq> 0 then v else img ! i ! j))
      else Inl IndexError)"

definition assign_eq :: "'a raster \<Rightarrow> 'a \<Rightarrow> 'a \<Rightarrow> 'a raster" where
  "assign_eq img a b =
     tabulate2 (shape_h img) (shape_w img) (\<lambda>i j. if img ! i ! j = a then b else img ! i ! j)"

text \<open>
  Modelled from the spec: the module \<^verbatim>\<open>utils.osm_helper\<close> (parsing,
  \<^verbatim>\<open>get_empty_map\<close>, \<^verbatim>\<open>plot_highways\<close>, \<^verbatim>\<open>plot_footprints\<close>) is
  missing from the sources. A parsed map feature carries its tags, the pixels that the
  rasterisation primitive fills for it (\<open>feat_pixels\<close>) and, for a footprint, the
  pixels of its outline (\<open>feat_outline\<close>). \<open>get_empty_map\<close> allocates the empty
  raster (0 is "unclassified"); its \<^verbatim>\<open>dtype\<close> argument is the element type of
  the result: \<open>16 word\<close> for \<^verbatim>\<open>dtype=np.uint16\<close>, and \<open>int\<close> for the
  default element type, which holds every class 0..6. \<open>plot_features\<close> paints the
  features in order with the value that the colour callback gives, and paints nothing
  for a feature whose value is \<^verbatim>\<open>None\<close>. The callback returns a Python integer;
  \<open>store\<close> is the conversion of that integer to the element type of the array,
  which the rasterisation primitive performs. \<open>plot_highways\<close> and
  \<open>plot_footprints\<close> are the two uses of \<open>plot_features\<close>, the latter painting
  outlines when the resolution is passed (the footprint contour layer).
\<close>

record feature =
  feat_tags :: tags
  feat_pixels :: "(nat \<times> nat) list"
  feat_outline :: "(nat \<times> nat) list"

definition get_empty_map :: "nat \<Rightarrow> nat \<Rightarrow> 'a::zero raster" where
  "get_empty_map h w = zeros h w"

definition paint :: "'a raster \<Rightarrow> (nat \<times> nat) list \<Rightarrow> 'a \<Rightarrow> 'a raster" where
  "paint img px c =
     tabulate2 (shape_h img) (shape_w img) (\<lambda>i j. if (i, j) \<in> set px then c else img ! i ! j)"

fun plot_features ::
  "(int \<Rightarrow> 'a) \<Rightarrow> (tags \<Rightarrow> error + int option) \<Rightarrow> (feature \<Rightarrow> (nat \<times> nat) list)
     \<Rightarrow> 'a raster \<Rightarrow> feature list \<Rightarrow> error + 'a raster" where
  "plot_features store colormap region img [] = Inr img"
| "plot_features store colormap region img (f # fs) =
     (case colormap (feat_tags f) of
        Inl e \<Rightarrow> Inl e
      | Inr None \<Rightarrow> plot_features store colormap region img fs
      | Inr (Some c) \<Rightarrow>
          plot_features store colormap region (paint img (region f) (store c)) fs)"

definition plot_highways ::
  "(int \<Rightarrow> 'a) \<Rightarrow> string \<Rightarrow> (string \<Rightarrow> tags \<Rightarrow> error + int option) \<Rightarrow> 'a raster
     \<Rightarrow> feature list \<Rightarrow> error + 'a raster" where
  "plot_highways store map_name colormap map_img highways =
     plot_features store (colormap map_name) feat_pixels map_img highways"

definition plot_footprints ::
  "(int \<Rightarrow> 'a) \<Rightarrow> string \<Rightarrow> (string \<Rightarrow> tags \<Rightarrow> error + int option) \<Rightarrow> 'a raster
     \<Rightarrow> feature list \<Rightarrow> bool \<Rightarrow> error + 'a raster" where
  "plot_footprints store map_name colormap map_img footprints with_resolution =
     plot_features store (colormap map_name)
       (if with_resolution then feat_outline else feat_pixels) map_img footprints"

text \<open>
  \<open>top_color colormap region fs p\<close> is the value of the last feature of \<open>fs\<close>
  that paints the pixel \<open>p\<close>, if there is one.
\<close>

fun top_color ::
  "(tags \<Rightarrow> error + int option) \<Rightarrow> (feature \<Rightarrow> (nat \<times> nat) list) \<Rightarrow> feature list
     \<Rightarrow> nat \<times> nat \<Rightarrow> int option" where
  "top_color colormap region [] p = None"
| "top_color colormap region (f # fs) p =
     (case top_color colormap region fs p of
        Some v \<Rightarrow> Some v
      | None \<Rightarrow> (case colormap (feat_tags f) of
                   Inr (Some c) \<Rightarrow> (if p \<in> set (region f) then Some c else None)
                 | _ \<Rightarrow> None))"

text \<open>
  \<^verbatim>\<open>get_osm_images\<close>, from the parsed highways and footprints, the raster
  shape given by the bounds, and the tile image (\<open>None\<close> when the file does not
  exist). \<open>env_masks\<close> is the \<^verbatim>\<open>if not os.path.exists(...) ... else ...\<close>
  statement: it returns \<^verbatim>\<open>green_lands\<close>, \<^verbatim>\<open>coast_zones\<close> and the
  segmentation map. \<open>height_field_base\<close> is the height field up to the two
  environment overrides. The returned metadata is left out. The height field is an
  array of \<^verbatim>\<open>np.uint16\<close>, a raster of \<open>16 word\<close>; \<open>to_uint16\<close> is the
  conversion of a painted height to that type, and \<open>astype_uint16\<close> is the final
  \<^verbatim>\<open>height_field.astype(np.uint16)\<close>. The segmentation map and the footprint
  contour have the default element type of \<^verbatim>\<open>get_empty_map\<close> and store
  their classes unchanged.
\<close>

definition astype_uint16 :: "16 word raster \<Rightarrow> 16 word raster" where
  "astype_uint16 img = map (map (\<lambda>v. word_of_int (uint v))) img"

definition env_masks ::
  "(nat raster \<Rightarrow> nat \<times> nat \<Rightarrow> nat raster) \<Rightarrow> bgr raster option \<Rightarrow> int raster
     \<Rightarrow> error + (nat raster option \<times> nat raster option \<times> int raster)" where
  "env_masks resize tile seg_map =
     (case tile of
        None \<Rightarrow> Inr (None, None, seg_map)
      | Some tile_img \<Rightarrow>
          bind_err (get_green_lands resize tile_img seg_map) (\<lambda>green_lands.
          bind_err (assign_where seg_map green_lands 3) (\<lambda>seg_map1.
          let coast_zones = get_coast_zones resize tile_img (shape_h seg_map1, shape_w seg_map1)
          in bind_err (assign_where seg_map1 coast_zones 5) (\<lambda>seg_map2.
          Inr (Some green_lands, Some coast_zones, seg_map2)))))"

definition height_field_base ::
  "(int \<Rightarrow> 16 word) \<Rightarrow> feature list \<Rightarrow> nat \<Rightarrow> nat \<Rightarrow> nat raster option
     \<Rightarrow> nat raster option \<Rightarrow> error + 16 word raster" where
  "height_field_base to_uint16 highways h w green_lands coast_zones =
     bind_err (plot_highways to_uint16 ''height_field'' get_highway_color (get_empty_map h w)
                 highways)
       (\<lambda>hf0.
     let hf1 = assign_eq hf0 0 4
     in bind_err (case coast_zones of None \<Rightarrow> Inr hf1 | Some cz \<Rightarrow> assign_where hf1 cz 0)
       (\<lambda>hf2.
        case green_lands of None \<Rightarrow> Inr hf2 | Some gl \<Rightarrow> assign_where hf2 gl 8))"

definition get_osm_images ::
  "(string \<Rightarrow> real option) \<Rightarrow> (nat raster \<Rightarrow> nat \<times> nat \<Rightarrow> nat raster) \<Rightarrow> (int \<Rightarrow> 16 word)
     \<Rightarrow> feature list \<Rightarrow> feature list \<Rightarrow> nat \<Rightarrow> nat \<Rightarrow> bgr raster option
     \<Rightarrow> error + (16 word raster \<times> int raster \<times> int raster)" where
  "get_osm_images to_float resize to_uint16 highways footprints h w tile =
     bind_err (plot_highways (\<lambda>c. c) ''seg_map'' get_highway_color (get_empty_map h w) highways)
       (\<lambda>seg_map0.
     bind_err (env_masks resize tile seg_map0)
       (\<lambda>(green_lands, coast_zones, seg_map2).
     bind_err (plot_footprints (\<lambda>c. c) ''seg_map'' (get_footprint_color to_float) seg_map2
                 footprints False)
       (\<lambda>seg_map3.
     let seg_map = assign_eq seg_map3 0 6
     in bind_err (plot_footprints (\<lambda>c. c) ''footprint_contour'' (get_footprint_color to_float)
                   (get_empty_map h w) footprints True)
       (\<lambda>footprint_contour.
     bind_err (height_field_base to_uint16 highways h w green_lands coast_zones)
       (\<lambda>hf3.
     bind_err (plot_footprints to_uint16 ''height_field'' (get_footprint_color to_float) hf3
                 footprints False)
       (\<lambda>height_field.
     Inr (astype_uint16 height_field, seg_map, footprint_contour)))))))"

text \<open>\<open>mask_on m i j\<close>: the mask is present and nonzero at the pixel.\<close>

definition mask_on :: "nat raster option \<Rightarrow> nat \<Rightarrow> nat \<Rightarrow> bool" where
  "mask_on m i j = (case m of None \<Rightarrow> False | Some msk \<Rightarrow> msk ! i ! j \<noteq> 0)"

text \<open>
  Inputs for evaluation: a 2 x 2 tile with one highway on the pixel (0, 0) and one
  building of height 12 on the pixel (1, 1) (\<open>float12\<close> reads its height tag), and a
  1 x 97 tile whose reference image is water everywhere, and a 1 x 97 segmentation
  map with the highway class on the pixel (0, 0). \<open>same_size\<close> resizes an image
  that already has the requested size.
\<close>

definition road00 :: feature where
  "road00 = \<lparr>feat_tags = [''highway'' \<mapsto> ''residential''], feat_pixels = [(0, 0)],
             feat_outline = []\<rparr>"

definition house11 :: feature where
  "house11 = \<lparr>feat_tags = [''building'' \<mapsto> ''yes'', ''height'' \<mapsto> ''12''],
              feat_pixels = [(1, 1)], feat_outline = [(1, 1)]\<rparr>"

definition float12 :: "string \<Rightarrow> real option" where
  "float12 s = (if s = ''12'' then Some 12 else None)"

text \<open>A conversion to \<^verbatim>\<open>np.uint16\<close> that wraps around, as a C cast does.\<close>

definition wrap_uint16 :: "int \<Rightarrow> 16 word" where
  "wrap_uint16 v = word_of_int v"

definition same_size :: "nat raster \<Rightarrow> nat \<times> nat \<Rightarrow> nat raster" where
  "same_size img dsize = img"

definition water97 :: "bgr raster" where
  "water97 = [replicate 97 (225, 225, 200)]"

definition seg97 :: "int raster" where
  "seg97 = [1 # replicate 96 0]"

subsection \<open>Tile fetcher\<close>











definition no_float :: "string \<Rightarrow> real option" where
  "no_float s = None"

subsection \<open>Camera Track Aligner\<close>

text \<open>
  The part of \<^verbatim>\<open>get_google_earth_aligned_seg_maps\<close> that computes the camera
  positions (from \<^verbatim>\<open>vol_cx, vol_cy, vol_cz = ...\<close> to the two \<^verbatim>\<open>-=\<close>
  statements of the rendering loop). The projection
  \<^verbatim>\<open>utils.osm_helper.lnglat2xy\<close> (with the resolution and the zoom level
  fixed) is the parameter \<open>lnglat2xy\<close>.
\<close>

record coordinate =
  longitude :: real
  latitude :: real
  altitude :: real

record position =
  pos_x :: real
  pos_y :: real
  pos_z :: real

definition np_mean :: "real list \<Rightarrow> real" where
  "np_mean xs = sum_list xs / real (length xs)"

definition relative_positions ::
  "(real \<Rightarrow> real \<Rightarrow> real \<times> real) \<Rightarrow> real \<Rightarrow> real \<Rightarrow> coordinate list \<Rightarrow> position list" where
  "relative_positions lnglat2xy cx cy poses =
     map (\<lambda>gcp. case lnglat2xy (longitude gcp) (latitude gcp) of
                  (x, y) \<Rightarrow> \<lparr>pos_x = x - cx, pos_y = y - cy, pos_z = altitude gcp\<rparr>) poses"

definition track_offset :: "position list \<Rightarrow> real \<times> real" where
  "track_offset ps = (np_mean (map pos_x ps), np_mean (map pos_y ps))"

definition vol_center :: "int \<Rightarrow> int \<times> int \<times> int" where
  "vol_center patch_size = ((patch_size - 1) div 2, (patch_size - 1) div 2, 0)"

definition aligned_positions :: "int \<Rightarrow> position list \<Rightarrow> position list" where
  "aligned_positions patch_size ps =
     (case vol_center patch_size of
        (vol_cx, vol_cy, vol_cz) \<Rightarrow>
          (case track_offset ps of
             (off_x, off_y) \<Rightarrow>
               map (\<lambda>p. p\<lparr>pos_x := pos_x p - (off_x - real_of_int vol_cx),
                           pos_y := pos_y p - (off_y - real_of_int vol_cy)\<rparr>) ps))"

definition camera_positions ::
  "(real \<Rightarrow> real \<Rightarrow> real \<times> real) \<Rightarrow> real \<Rightarrow> real \<Rightarrow> int \<Rightarrow> coordinate list \<Rightarrow> position list" where
  "camera_positions lnglat2xy cx cy patch_size poses =
     aligned_positions patch_size (relative_positions lnglat2xy cx cy poses)"

text \<open>A track of two frames, for evaluation.\<close>

definition sample_track :: "coordinate list" where
  "sample_track = [\<lparr>longitude = 3, latitude = 1, altitude = -1\<rparr>,
                   \<lparr>longitude = 1, latitude = 1, altitude = 1\<rparr>]"

section \<open>Theorems\<close>

subsection \<open>Feature Classifier\<close>

text \<open>
  C1 (as stated): a footprint whose tags contain role = "inner" is classified as
  "no value" in every layer kind. This fails for the segmentation map, where the
  inner-role branch returns class 2.
\<close>

theorem inner_role_seg_map_counterexample:
  "get_footprint_color no_float ''seg_map'' [''role'' \<mapsto> ''inner''] = Inr (Some 2)
   \<and> get_footprint_color no_float ''seg_map'' [''role'' \<mapsto> ''inner''] \<noteq> Inr None"
  by (simp add: get_footprint_color_def tag_equals_def)

text \<open>
  C1 (amended): for a footprint whose tags contain role = "inner", the height field
  classification is "no value" whatever the other tags are; the segmentation map
  classification is class 2; the footprint contour classification is 1 when a
  building tag is present and 0 otherwise.
\<close>

theorem inner_role_classification:
  assumes "tgs ''role'' = Some ''inner''"
  shows "get_footprint_color to_float ''height_field'' tgs = Inr None
       \<and> get_footprint_color to_float ''seg_map'' tgs = Inr (Some 2)
       \<and> get_footprint_color to_float ''footprint_contour'' tgs
           = Inr (Some (if tgs ''building'' = None then 0 else 1))"
  using assms by (auto simp: get_footprint_color_def tag_equals_def split: option.splits)

theorem inner_role_classification_witness:
  "[''role'' \<mapsto> ''inner'', ''building'' \<mapsto> ''yes''] ''role'' = Some ''inner''
   \<and> get_footprint_color (\<lambda>s. Some 12) ''height_field''
        [''role'' \<mapsto> ''inner'', ''building'' \<mapsto> ''yes''] = Inr None
   \<and> get_footprint_color (\<lambda>s. Some 12) ''seg_map''
        [''role'' \<mapsto> ''inner'', ''building'' \<mapsto> ''yes''] = Inr (Some 2)
   \<and> get_footprint_color (\<lambda>s. Some 12) ''footprint_contour''
        [''role'' \<mapsto> ''inner'', ''building'' \<mapsto> ''yes''] = Inr (Some 1)"
  using inner_role_classification
    [of "[''role'' \<mapsto> ''inner'', ''building'' \<mapsto> ''yes'']" "\<lambda>s. Some 12"]
  by simp

subsection \<open>Patch extraction\<close>

text \<open>
  C2: patch extraction clamps the patch to the raster when the requested square
  exceeds it and never returns an empty patch. At a 4 x 4 raster, centre (3, 2)
  and patch size 2 the requested columns 2..4 pass the right edge; the stop column
  is set to 0 instead of the width, and the patch has two rows of no columns.
\<close>

theorem get_img_patch_right_edge_empty:
  "get_img_patch [[1, 2, 3, 4], [5, 6, 7, 8], [9, 10, 11, 12], [13, 14, 15, 16]] 3 2 2
     = ([[], []], [HorizontalCenterError 3])"
  by code_simp

subsection \<open>Mask Cleaner\<close>

lemma tabulate2_nth: "i < h \<Longrightarrow> j < w \<Longrightarrow> tabulate2 h w f ! i ! j = f i j"
  by (simp add: tabulate2_def)

lemma shape_h_tabulate2: "shape_h (tabulate2 h w f) = h"
  by (simp add: tabulate2_def shape_h_def)

lemma shape_w_tabulate2: "shape_w (tabulate2 h w f) = (if h = 0 then 0 else w)"
proof (cases h)
  case 0
  then show ?thesis by (simp add: tabulate2_def shape_w_def)
next
  case (Suc n)
  have "[0..<Suc n] = 0 # [Suc 0..<Suc n]" by (rule upt_conv_Cons) simp
  then show ?thesis using Suc by (simp add: tabulate2_def shape_w_def del: upt_Suc)
qed

lemma is_raster_tabulate2: "is_raster (tabulate2 h w f)"
  by (auto simp: is_raster_def shape_w_tabulate2) (auto simp: tabulate2_def)

lemma tabulate2_cong:
  "(\<And>i j. i < h \<Longrightarrow> j < w \<Longrightarrow> f i j = g i j) \<Longrightarrow> tabulate2 h w f = tabulate2 h w g"
  by (simp add: tabulate2_def)

lemma fold_min_le: "fold min xs (x::nat) \<le> x"
proof (induction xs arbitrary: x)
  case Nil
  then show ?case by simp
next
  case (Cons a xs)
  have "fold min xs (min a x) \<le> min a x" by (rule Cons.IH)
  then show ?case by simp
qed

lemma fold_min_Min: "fold min xs (x::nat) = Min (set (x # xs))"
  by (rule Min.set_eq_fold [symmetric])

lemma shape_h_erode5: "shape_h (erode5 msk) = shape_h msk"
  by (simp add: erode5_def Let_def shape_h_tabulate2)

lemma shape_w_erode5: "shape_w (erode5 msk) = (if shape_h msk = 0 then 0 else shape_w msk)"
  by (simp add: erode5_def Let_def shape_w_tabulate2)

lemma erode5_nth:
  assumes "i < shape_h msk" "j < shape_w msk"
  shows "erode5 msk ! i ! j
           = fold min (map (\<lambda>(r, c). msk ! r ! c) (window5 (shape_h msk) (shape_w msk) i j))
               (msk ! i ! j)"
  using assms by (simp add: erode5_def Let_def tabulate2_nth)

lemma erode5_le:
  assumes "i < shape_h msk" "j < shape_w msk"
  shows "erode5 msk ! i ! j \<le> msk ! i ! j"
  using assms by (simp add: erode5_nth fold_min_le)

lemma fg_erode5: "fg (erode5 msk) p \<Longrightarrow> fg msk p"
proof (cases p)
  case (Pair i j)
  assume a: "fg (erode5 msk) p"
  with Pair have r: "i < shape_h msk" "j < shape_w msk" and nz: "erode5 msk ! i ! j \<noteq> 0"
    by (auto simp: fg_def shape_h_erode5 shape_w_erode5 split: if_splits)
  from erode5_le [OF r] nz have "msk ! i ! j \<noteq> 0" by auto
  with r Pair show ?thesis by (simp add: fg_def)
qed

lemma flood_subset:
  "set (flood msk n seen fr) \<subseteq> set seen \<union> {q. fg msk q}"
proof (induction n arbitrary: seen fr)
  case 0
  then show ?case by simp
next
  case (Suc n)
  let ?new = "remdups (filter (\<lambda>q. fg msk q \<and> q \<notin> set seen) (concat (map neighbours4 fr)))"
  show ?case
  proof (cases "?new = []")
    case True
    then show ?thesis by (simp add: Let_def)
  next
    case False
    have "set (flood msk n (seen @ ?new) ?new) \<subseteq> set (seen @ ?new) \<union> {q. fg msk q}"
      by (rule Suc.IH)
    also have "\<dots> \<subseteq> set seen \<union> {q. fg msk q}" by auto
    finally show ?thesis using False by (simp add: Let_def)
  qed
qed

lemma flood_distinct:
  "distinct seen \<Longrightarrow> distinct (flood msk n seen fr)"
proof (induction n arbitrary: seen fr)
  case 0
  then show ?case by simp
next
  case (Suc n)
  let ?new = "remdups (filter (\<lambda>q. fg msk q \<and> q \<notin> set seen) (concat (map neighbours4 fr)))"
  show ?case
  proof (cases "?new = []")
    case True
    then show ?thesis using Suc.prems by (simp add: Let_def)
  next
    case False
    have "distinct (seen @ ?new)" using Suc.prems by auto
    then have "distinct (flood msk n (seen @ ?new) ?new)" by (rule Suc.IH)
    then show ?thesis using False by (simp add: Let_def)
  qed
qed

lemma component_fg: "fg msk p \<Longrightarrow> set (component msk p) \<subseteq> {q. fg msk q}"
  using flood_subset [of msk _ "[p]" "[p]"] by (auto simp: component_def)

lemma component_distinct: "distinct (component msk p)"
  by (simp add: component_def flood_distinct)

lemma fg_in_all_pixels: "fg msk q \<Longrightarrow> q \<in> set (all_pixels msk)"
  by (cases q) (auto simp: fg_def all_pixels_def)

lemma component_length_le:
  assumes "fg msk p"
  shows "length (component msk p) \<le> count_nonzero msk"
proof -
  have "set (component msk p) \<subseteq> set (filter (fg msk) (all_pixels msk))"
    using component_fg [OF assms] fg_in_all_pixels by auto
  then have "card (set (component msk p)) \<le> card (set (filter (fg msk) (all_pixels msk)))"
    by (intro card_mono) auto
  also have "\<dots> \<le> length (filter (fg msk) (all_pixels msk))"
    by (rule card_length)
  finally show ?thesis
    by (simp add: distinct_card [OF component_distinct] count_nonzero_def)
qed

lemma length_filter_mono:
  "(\<And>x. x \<in> set xs \<Longrightarrow> P x \<Longrightarrow> Q x) \<Longrightarrow> length (filter P xs) \<le> length (filter Q xs)"
  by (induction xs) auto

lemma all_pixels_erode5: "all_pixels (erode5 msk) = all_pixels msk"
  by (simp add: all_pixels_def shape_h_erode5 shape_w_erode5)

lemma count_nonzero_erode5: "count_nonzero (erode5 msk) \<le> count_nonzero msk"
  unfolding count_nonzero_def all_pixels_erode5
  by (rule length_filter_mono) (rule fg_erode5)

lemma remove_mask_outliers_nth:
  assumes "i < shape_h msk" "j < shape_w msk"
  shows "remove_mask_outliers msk ! i ! j
           = (if cc_area (erode5 msk) (i, j) \<le> N_PIXELS_THRES then 0 else erode5 msk ! i ! j)"
  using assms
  by (simp add: remove_mask_outliers_def Let_def ignored_mask_def tabulate2_nth
      shape_h_erode5 shape_w_erode5)

lemma shape_h_remove_mask_outliers: "shape_h (remove_mask_outliers msk) = shape_h msk"
  by (simp add: remove_mask_outliers_def Let_def shape_h_tabulate2 shape_h_erode5)

lemma remove_mask_outliers_tabulate:
  "remove_mask_outliers msk
     = tabulate2 (shape_h msk) (shape_w msk)
         (\<lambda>i j. if cc_area (erode5 msk) (i, j) \<le> N_PIXELS_THRES then 0 else erode5 msk ! i ! j)"
proof (cases "shape_h msk = 0")
  case True
  then show ?thesis
    by (simp add: remove_mask_outliers_def Let_def shape_h_erode5 tabulate2_def)
next
  case False
  then show ?thesis
    unfolding remove_mask_outliers_def Let_def shape_h_erode5 shape_w_erode5
    by (auto intro!: tabulate2_cong simp: ignored_mask_def tabulate2_nth shape_h_erode5
        shape_w_erode5)
qed

lemma few_pixels_cleaned:
  assumes "count_nonzero (erode5 msk) \<le> N_PIXELS_THRES"
  shows "remove_mask_outliers msk = zeros (shape_h msk) (shape_w msk)"
  unfolding remove_mask_outliers_tabulate zeros_def
proof (rule tabulate2_cong)
  fix i j assume r: "i < shape_h msk" "j < shape_w msk"
  show "(if cc_area (erode5 msk) (i, j) \<le> N_PIXELS_THRES then 0 else erode5 msk ! i ! j) = 0"
  proof (cases "fg (erode5 msk) (i, j)")
    case True
    then have "cc_area (erode5 msk) (i, j) \<le> count_nonzero (erode5 msk)"
      by (simp add: cc_area_def component_length_le)
    with assms show ?thesis by simp
  next
    case False
    with r have "erode5 msk ! i ! j = 0"
      by (simp add: fg_def shape_h_erode5 shape_w_erode5 split: if_splits)
    then show ?thesis by simp
  qed
qed


lemma fold_min_le_mem: "y \<in> set xs \<Longrightarrow> fold min xs (x::nat) \<le> y"
proof (induction xs arbitrary: x)
  case Nil
  then show ?case by simp
next
  case (Cons a xs)
  show ?case
  proof (cases "y = a")
    case True
    have "fold min xs (min a x) \<le> min a x" by (rule fold_min_le)
    with True show ?thesis by simp
  next
    case False
    with Cons.prems have "y \<in> set xs" by simp
    then show ?thesis by (simp add: Cons.IH)
  qed
qed

lemma erode5_le_window:
  assumes "i < shape_h msk" "j < shape_w msk"
    and "(r, c) \<in> set (window5 (shape_h msk) (shape_w msk) i j)"
  shows "erode5 msk ! i ! j \<le> msk ! r ! c"
proof -
  have "msk ! r ! c \<in> set (map (\<lambda>(r, c). msk ! r ! c) (window5 (shape_h msk) (shape_w msk) i j))"
    using assms(3) by force
  then show ?thesis using assms(1,2) by (simp add: erode5_nth fold_min_le_mem)
qed

lemma remove_mask_outliers_le_erode5:
  assumes "i < shape_h msk" "j < shape_w msk"
  shows "remove_mask_outliers msk ! i ! j \<le> erode5 msk ! i ! j"
  using assms by (simp add: remove_mask_outliers_nth)

lemma shape_line: "shape_h [replicate n v] = 1" "shape_w [replicate n v] = n"
  by (simp_all add: shape_h_def shape_w_def)

lemma fg_line: "v \<noteq> 0 \<Longrightarrow> fg [replicate n v] (i, j) \<longleftrightarrow> i = 0 \<and> j < n"
  by (auto simp: fg_def shape_line)

lemma flood_line:
  assumes "v \<noteq> 0" "k < n" "n - k \<le> fuel"
  shows "flood [replicate n v] fuel (map (Pair 0) [0 ..< Suc k]) [(0, k)] = map (Pair 0) [0 ..< n]"
  using assms(2,3)
proof (induction fuel arbitrary: k)
  case 0
  then show ?case by simp
next
  case (Suc fuel)
  let ?seen = "map (Pair 0) [0 ..< Suc k]"
  have new: "remdups (filter (\<lambda>q. fg [replicate n v] q \<and> q \<notin> set ?seen)
                        (concat (map neighbours4 [(0, k)])))
             = (if Suc k < n then [(0, Suc k)] else [])"
    using assms(1) Suc.prems(1) by (auto simp: neighbours4_def fg_line)
  show ?case
  proof (cases "Suc k < n")
    case True
    have "flood [replicate n v] fuel (map (Pair 0) [0 ..< Suc (Suc k)]) [(0, Suc k)]
            = map (Pair 0) [0 ..< n]"
      using True Suc.prems by (intro Suc.IH) simp_all
    then show ?thesis using True new by (simp add: Let_def)
  next
    case False
    with Suc.prems have "Suc k = n" by simp
    with False new show ?thesis by (simp add: Let_def)
  qed
qed

lemma component_line:
  assumes "v \<noteq> 0" "0 < n"
  shows "component [replicate n v] (0, 0) = map (Pair 0) [0 ..< n]"
  using flood_line [OF assms(1), of 0 n n] assms(2) by (simp add: component_def shape_line)

lemma fold_min_const: "(\<forall>y \<in> set xs. y = x) \<Longrightarrow> fold min xs (x::nat) = x"
  by (induction xs) simp_all

lemma erode5_line: "erode5 [replicate n v] = [replicate n v]"
proof -
  have "fold min (map (\<lambda>(r, c). [replicate n v] ! r ! c) (window5 1 n i j)) ([replicate n v] ! i ! j)
          = v" if "i < 1" "j < n" for i j
  proof -
    have "\<forall>y \<in> set (map (\<lambda>(r, c). [replicate n v] ! r ! c) (window5 1 n i j)). y = v"
      using that by (auto simp: window5_def)
    moreover have "[replicate n v] ! i ! j = v" using that by simp
    ultimately show ?thesis by (simp add: fold_min_const)
  qed
  then have "erode5 [replicate n v] = tabulate2 1 n (\<lambda>i j. v)"
    unfolding erode5_def Let_def shape_line by (intro tabulate2_cong) simp_all
  also have "\<dots> = [replicate n v]" by (simp add: tabulate2_def map_replicate_const)
  finally show ?thesis .
qed

lemma remove_mask_outliers_line:
  assumes "v \<noteq> 0" "N_PIXELS_THRES < n"
  shows "remove_mask_outliers [replicate n v] ! 0 ! 0 = v"
proof -
  have n: "0 < n" using assms(2) by simp
  have "cc_area [replicate n v] (0, 0) = n"
    using assms(1) n by (simp add: cc_area_def fg_line component_line)
  with assms(2) n show ?thesis
    by (simp add: remove_mask_outliers_nth shape_line erode5_line)
qed

text \<open>
  C10: the Mask Cleaner never adds pixels. At every pixel the cleaned mask is
  bounded by the input mask, so a pixel that is nonzero in the output is nonzero
  in the input.
\<close>

theorem remove_mask_outliers_no_new_pixels:
  assumes "i < shape_h msk" and "j < shape_w msk"
  shows "remove_mask_outliers msk ! i ! j \<le> msk ! i ! j
       \<and> (remove_mask_outliers msk ! i ! j \<noteq> 0 \<longrightarrow> msk ! i ! j \<noteq> 0)"
proof -
  have "remove_mask_outliers msk ! i ! j \<le> erode5 msk ! i ! j"
    using assms by (rule remove_mask_outliers_le_erode5)
  also have "\<dots> \<le> msk ! i ! j" using assms by (rule erode5_le)
  finally show ?thesis by auto
qed

text \<open>
  C3 (amended): a mask with exactly one nonzero pixel is cleaned to the all-zero
  mask. For every mask (one with a 200-pixel blob included) the result is the
  5 x 5 erosion of the mask with the eroded components of at most 96 pixels
  cleared: an output pixel is at most every input pixel of its 5 x 5 window inside
  the image, so blob pixels within two pixels of the background are cleared, and it
  is 0 when the area of its eroded component is at most 96.
\<close>

theorem remove_mask_outliers_erodes:
  "(count_nonzero msk = 1 \<longrightarrow> remove_mask_outliers msk = zeros (shape_h msk) (shape_w msk))
   \<and> (\<forall>i < shape_h msk. \<forall>j < shape_w msk.
        (\<forall>(r, c) \<in> set (window5 (shape_h msk) (shape_w msk) i j).
            remove_mask_outliers msk ! i ! j \<le> msk ! r ! c)
        \<and> remove_mask_outliers msk ! i ! j
            = (if cc_area (erode5 msk) (i, j) \<le> N_PIXELS_THRES then 0 else erode5 msk ! i ! j))"
proof -
  have a: "count_nonzero msk = 1 \<longrightarrow> remove_mask_outliers msk = zeros (shape_h msk) (shape_w msk)"
  proof
    assume "count_nonzero msk = 1"
    with count_nonzero_erode5 [of msk] have "count_nonzero (erode5 msk) \<le> N_PIXELS_THRES"
      by (simp add: N_PIXELS_THRES_def)
    then show "remove_mask_outliers msk = zeros (shape_h msk) (shape_w msk)"
      by (rule few_pixels_cleaned)
  qed
  have b: "remove_mask_outliers msk ! i ! j \<le> msk ! r ! c"
    if "i < shape_h msk" "j < shape_w msk"
      "(r, c) \<in> set (window5 (shape_h msk) (shape_w msk) i j)" for i j r c
    using remove_mask_outliers_le_erode5 [OF that(1,2)] erode5_le_window [OF that]
    by (rule order_trans)
  have bc: "\<forall>i < shape_h msk. \<forall>j < shape_w msk.
        (\<forall>(r, c) \<in> set (window5 (shape_h msk) (shape_w msk) i j).
            remove_mask_outliers msk ! i ! j \<le> msk ! r ! c)
        \<and> remove_mask_outliers msk ! i ! j
            = (if cc_area (erode5 msk) (i, j) \<le> N_PIXELS_THRES then 0 else erode5 msk ! i ! j)"
  proof (intro allI impI conjI)
    fix i j assume ij: "i < shape_h msk" "j < shape_w msk"
    show "\<forall>(r, c) \<in> set (window5 (shape_h msk) (shape_w msk) i j).
            remove_mask_outliers msk ! i ! j \<le> msk ! r ! c"
    proof clarify
      fix r c assume "(r, c) \<in> set (window5 (shape_h msk) (shape_w msk) i j)"
      with ij show "remove_mask_outliers msk ! i ! j \<le> msk ! r ! c" by (rule b)
    qed
    show "remove_mask_outliers msk ! i ! j
            = (if cc_area (erode5 msk) (i, j) \<le> N_PIXELS_THRES then 0 else erode5 msk ! i ! j)"
      using ij by (rule remove_mask_outliers_nth)
  qed
  from a bc show ?thesis by (rule conjI)
qed


lemma blob200_shape: "shape_h blob200 = 12" "shape_w blob200 = 22"
  by (simp_all add: blob200_def shape_h_def shape_w_def)

lemma blob200_00: "blob200 ! 0 ! 0 = 0"
  by (simp add: blob200_def)

lemma blob200_11: "blob200 ! 1 ! 1 = 255"
  by (simp add: blob200_def nth_append)

lemma blob200_cleaned_11: "remove_mask_outliers blob200 ! 1 ! 1 = 0"
proof -
  have "(0, 0) \<in> set (window5 (shape_h blob200) (shape_w blob200) 1 1)"
    by (simp add: blob200_shape window5_def)
  then have "erode5 blob200 ! 1 ! 1 \<le> blob200 ! 0 ! 0"
    by (intro erode5_le_window) (simp_all add: blob200_shape)
  then have "erode5 blob200 ! 1 ! 1 = 0" by (simp add: blob200_00)
  then show ?thesis by (simp add: remove_mask_outliers_nth blob200_shape)
qed


lemma length_filter_concat:
  "length (filter P (concat xss)) = sum_list (map (\<lambda>xs. length (filter P xs)) xss)"
  by (induction xss) simp_all

lemma row_count:
  assumes "i < shape_h msk" and "length (msk ! i) = shape_w msk"
  shows "length (filter (fg msk) (map (Pair i) [0 ..< shape_w msk]))
           = length (filter (\<lambda>v. v \<noteq> 0) (msk ! i))"
proof -
  have "filter (fg msk) (map (Pair i) [0 ..< shape_w msk])
          = map (Pair i) (filter (\<lambda>j. msk ! i ! j \<noteq> 0) [0 ..< shape_w msk])"
    using assms(1) by (auto simp: filter_map o_def fg_def intro!: arg_cong [where f = "map (Pair i)"] filter_cong)
  moreover have "length (filter (\<lambda>j. msk ! i ! j \<noteq> 0) [0 ..< shape_w msk])
          = length (filter (\<lambda>v. v \<noteq> 0) (map (\<lambda>j. msk ! i ! j) [0 ..< shape_w msk]))"
    by (simp add: filter_map o_def)
  moreover have "map (\<lambda>j. msk ! i ! j) [0 ..< shape_w msk] = msk ! i"
    using assms(2) map_nth [of "msk ! i"] by simp
  ultimately show ?thesis by simp
qed

lemma count_nonzero_concat:
  assumes "is_raster msk"
  shows "count_nonzero msk = length (filter (\<lambda>v. v \<noteq> 0) (concat msk))"
proof -
  have rows: "length (msk ! i) = shape_w msk" if "i < shape_h msk" for i
    using assms that by (simp add: is_raster_def shape_h_def)
  have "count_nonzero msk
          = sum_list (map (\<lambda>i. length (filter (fg msk) (map (Pair i) [0 ..< shape_w msk])))
              [0 ..< shape_h msk])"
    by (simp add: count_nonzero_def all_pixels_def List.product_concat_map length_filter_concat o_def)
  also have "\<dots> = sum_list (map (\<lambda>i. length (filter (\<lambda>v. v \<noteq> 0) (msk ! i))) [0 ..< shape_h msk])"
  proof -
    have "length (filter (fg msk) (map (Pair i) [0 ..< shape_w msk]))
            = length (filter (\<lambda>v. v \<noteq> 0) (msk ! i))" if "i \<in> set [0 ..< shape_h msk]" for i
    proof (rule row_count)
      show "i < shape_h msk" using that by simp
      then show "length (msk ! i) = shape_w msk" by (rule rows)
    qed
    then have "map (\<lambda>i. length (filter (fg msk) (map (Pair i) [0 ..< shape_w msk]))) [0 ..< shape_h msk]
          = map (\<lambda>i. length (filter (\<lambda>v. v \<noteq> 0) (msk ! i))) [0 ..< shape_h msk]"
      by (rule map_cong [OF refl])
    then show ?thesis by (rule arg_cong)
  qed
  also have "\<dots> = sum_list (map (\<lambda>xs. length (filter (\<lambda>v. v \<noteq> 0) xs)) (map (\<lambda>i. msk ! i) [0 ..< shape_h msk]))"
    by (simp add: o_def)
  also have "map (\<lambda>i. msk ! i) [0 ..< shape_h msk] = msk"
    by (simp add: shape_h_def map_nth)
  finally show ?thesis by (simp add: length_filter_concat)
qed

lemma blob200_raster: "is_raster blob200"
  by (auto simp: is_raster_def blob200_def shape_w_def)

lemma blob200_count: "count_nonzero blob200 = 200"
  by (simp add: count_nonzero_concat [OF blob200_raster] length_filter_concat)
     (simp add: blob200_def sum_list_replicate)


text \<open>
  C3 (as stated): a mask with a single solid 200-pixel blob is returned unchanged.
  This fails on \<open>blob200\<close>, a solid 10 x 20 rectangle with one row or column of
  background on each side: the corner pixel (1, 1) of the blob has the background
  pixel (0, 0) in its window and is cleared by the erosion.
\<close>

theorem remove_mask_outliers_blob200_counterexample:
  "count_nonzero blob200 = 200
   \<and> blob200 ! 1 ! 1 = 255
   \<and> remove_mask_outliers blob200 ! 1 ! 1 = 0
   \<and> remove_mask_outliers blob200 \<noteq> blob200"
proof -
  have "remove_mask_outliers blob200 \<noteq> blob200"
  proof
    assume "remove_mask_outliers blob200 = blob200"
    then have "remove_mask_outliers blob200 ! 1 ! 1 = blob200 ! 1 ! 1" by simp
    then show False unfolding blob200_cleaned_11 blob200_11 by simp
  qed
  with blob200_count blob200_11 blob200_cleaned_11 show ?thesis by blast
qed

theorem remove_mask_outliers_erodes_witness:
  "count_nonzero dot3 = 1
   \<and> remove_mask_outliers dot3 = zeros (shape_h dot3) (shape_w dot3)
   \<and> remove_mask_outliers dot3 = [[0, 0, 0], [0, 0, 0], [0, 0, 0]]
   \<and> (1::nat) < shape_h dot3 \<and> (1::nat) < shape_w dot3
   \<and> (0, 0) \<in> set (window5 (shape_h dot3) (shape_w dot3) 1 1)
   \<and> remove_mask_outliers dot3 ! 1 ! 1 \<le> dot3 ! 0 ! 0
   \<and> dot3 ! 1 ! 1 = 255
   \<and> (0::nat) < shape_h row97 \<and> (0::nat) < shape_w row97
   \<and> cc_area (erode5 row97) (0, 0) = 97
   \<and> remove_mask_outliers row97 ! 0 ! 0 = 255"
proof -
  note t = remove_mask_outliers_erodes [of dot3]
  have c: "count_nonzero dot3 = 1" by code_simp
  have z: "remove_mask_outliers dot3 = zeros (shape_h dot3) (shape_w dot3)"
    using t c by blast
  have e: "zeros (shape_h dot3) (shape_w dot3) = [[0, 0, 0], [0, 0, (0::nat)], [0, 0, 0]]"
    by code_simp
  have s: "(1::nat) < shape_h dot3" "(1::nat) < shape_w dot3"
    by (simp_all add: dot3_def shape_h_def shape_w_def)
  have w: "(0, 0) \<in> set (window5 (shape_h dot3) (shape_w dot3) 1 1)"
    by (simp add: dot3_def shape_h_def shape_w_def window5_def)
  have b: "remove_mask_outliers dot3 ! 1 ! 1 \<le> dot3 ! 0 ! 0"
    using t s w by blast
  have v: "dot3 ! 1 ! 1 = 255" by (simp add: dot3_def)
  have s': "(0::nat) < shape_h row97" "(0::nat) < shape_w row97"
    by (simp_all add: row97_def shape_line)
  have a: "cc_area (erode5 row97) (0, 0) = 97"
    by (simp add: row97_def erode5_line cc_area_def fg_line component_line)
  have "remove_mask_outliers row97 ! 0 ! 0
          = (if cc_area (erode5 row97) (0, 0) \<le> N_PIXELS_THRES then 0 else erode5 row97 ! 0 ! 0)"
    using remove_mask_outliers_erodes [of row97] s' by blast
  then have k: "remove_mask_outliers row97 ! 0 ! 0 = 255"
    by (simp add: a N_PIXELS_THRES_def) (simp add: row97_def erode5_line)
  from c z e s w b v s' a k show ?thesis by metis
qed

theorem remove_mask_outliers_no_new_pixels_witness:
  "(0::nat) < shape_h row97 \<and> (0::nat) < shape_w row97
   \<and> remove_mask_outliers row97 ! 0 ! 0 = 255
   \<and> remove_mask_outliers row97 ! 0 ! 0 \<noteq> 0
   \<and> remove_mask_outliers row97 ! 0 ! 0 \<le> row97 ! 0 ! 0
   \<and> row97 ! 0 ! 0 \<noteq> 0"
proof -
  have s: "(0::nat) < shape_h row97" "(0::nat) < shape_w row97"
    by (simp_all add: row97_def shape_line)
  have v: "remove_mask_outliers row97 ! 0 ! 0 = 255"
    by (simp add: row97_def remove_mask_outliers_line N_PIXELS_THRES_def)
  from remove_mask_outliers_no_new_pixels [OF s] s v show ?thesis by simp
qed

subsection \<open>Layer Compositor\<close>

lemma bind_err_Inr: "bind_err m f = Inr y \<longleftrightarrow> (\<exists>x. m = Inr x \<and> f x = Inr y)"
  by (cases m) (simp_all add: bind_err_def)

lemma shape_w_empty: "shape_h img = 0 \<Longrightarrow> shape_w img = 0"
  by (simp add: shape_h_def shape_w_def)

lemma shape_w_tabulate2_same: "shape_w (tabulate2 (shape_h img) (shape_w img) f) = shape_w img"
  by (simp add: shape_w_tabulate2 shape_w_empty)

lemma shape_paint: "shape_h (paint img px c) = shape_h img" "shape_w (paint img px c) = shape_w img"
  by (simp_all add: paint_def shape_h_tabulate2 shape_w_tabulate2_same)

lemma paint_nth:
  "i < shape_h img \<Longrightarrow> j < shape_w img \<Longrightarrow>
     paint img px c ! i ! j = (if (i, j) \<in> set px then c else img ! i ! j)"
  by (simp add: paint_def tabulate2_nth)

lemma plot_features_shape:
  "plot_features store col region img fs = Inr out \<Longrightarrow>
     shape_h out = shape_h img \<and> shape_w out = shape_w img"
proof (induction fs arbitrary: img)
  case Nil
  then show ?case by simp
next
  case (Cons f fs)
  then show ?case
    by (auto simp: shape_paint split: sum.splits option.splits)
qed

lemma plot_features_nth:
  assumes "plot_features store col region img fs = Inr out" "i < shape_h img" "j < shape_w img"
  shows "out ! i ! j
           = (case top_color col region fs (i, j) of None \<Rightarrow> img ! i ! j | Some v \<Rightarrow> store v)"
  using assms
proof (induction fs arbitrary: img)
  case Nil
  then show ?case by simp
next
  case (Cons f fs)
  show ?case
  proof (cases "col (feat_tags f)")
    case (Inl e)
    with Cons.prems show ?thesis by simp
  next
    case (Inr oc)
    show ?thesis
    proof (cases oc)
      case None
      with Inr Cons.prems have "plot_features store col region img fs = Inr out" by simp
      from Cons.IH [OF this Cons.prems(2,3)] Inr None show ?thesis
        by (simp split: option.splits)
    next
      case (Some c)
      with Inr Cons.prems
      have p: "plot_features store col region (paint img (region f) (store c)) fs = Inr out"
        by simp
      have "out ! i ! j = (case top_color col region fs (i, j) of
                             None \<Rightarrow> paint img (region f) (store c) ! i ! j
                           | Some v \<Rightarrow> store v)"
        using Cons.IH [OF p] Cons.prems(2,3) by (simp add: shape_paint)
      with Inr Some Cons.prems(2,3) show ?thesis
        by (simp add: paint_nth split: option.splits)
    qed
  qed
qed

lemma shape_assign_eq:
  "shape_h (assign_eq img a b) = shape_h img" "shape_w (assign_eq img a b) = shape_w img"
  by (simp_all add: assign_eq_def shape_h_tabulate2 shape_w_tabulate2_same)

lemma assign_eq_nth:
  "i < shape_h img \<Longrightarrow> j < shape_w img \<Longrightarrow>
     assign_eq img a b ! i ! j = (if img ! i ! j = a then b else img ! i ! j)"
  by (simp add: assign_eq_def tabulate2_nth)

lemma assign_where_Inr:
  assumes "assign_where img msk v = Inr out"
  shows "shape_h out = shape_h img" "shape_w out = shape_w img"
    "shape_h msk = shape_h img" "shape_w msk = shape_w img"
    "i < shape_h img \<Longrightarrow> j < shape_w img \<Longrightarrow>
       out ! i ! j = (if msk ! i ! j \<noteq> 0 then v else img ! i ! j)"
  using assms
  by (auto simp: assign_where_def shape_h_tabulate2 shape_w_tabulate2_same tabulate2_nth
      split: if_splits)

lemma shape_zeros: "shape_h (zeros h w) = h" "0 < h \<Longrightarrow> shape_w (zeros h w) = w"
  by (simp_all add: zeros_def shape_h_tabulate2 shape_w_tabulate2)

lemma zeros_nth: "i < h \<Longrightarrow> j < w \<Longrightarrow> zeros h w ! i ! j = 0"
  by (simp add: zeros_def tabulate2_nth)

lemma top_color_highway_height:
  "top_color (get_highway_color ''height_field'') region fs p = Some v \<Longrightarrow> v = 0"
  by (induction fs) (auto simp: get_highway_color_def split: option.splits if_splits)

lemma astype_uint16_same: "astype_uint16 img = img"
  by (simp add: astype_uint16_def map_idI)

lemma shape_get_empty_map:
  "shape_h (get_empty_map h w) = h" "0 < h \<Longrightarrow> shape_w (get_empty_map h w) = w"
  by (simp_all add: get_empty_map_def zeros_def shape_h_tabulate2 shape_w_tabulate2)

lemma get_empty_map_nth: "i < h \<Longrightarrow> j < w \<Longrightarrow> get_empty_map h w ! i ! j = 0"
  by (simp add: get_empty_map_def zeros_def tabulate2_nth)

lemma height_field_base_shape:
  assumes "height_field_base to_uint16 highways h w gl cz = Inr hf3" "0 < h"
  shows "shape_h hf3 = h" "shape_w hf3 = w"
proof -
  from assms(1) obtain hf0 hf2 where
    p: "plot_highways to_uint16 ''height_field'' get_highway_color (get_empty_map h w) highways
          = Inr hf0"
    and c: "(case cz of None \<Rightarrow> Inr (assign_eq hf0 0 4)
             | Some m \<Rightarrow> assign_where (assign_eq hf0 0 4) m 0) = Inr hf2"
    and g: "(case gl of None \<Rightarrow> Inr hf2 | Some m \<Rightarrow> assign_where hf2 m 8) = Inr hf3"
    by (auto simp: height_field_base_def bind_err_Inr Let_def)
  have s0: "shape_h hf0 = h" "shape_w hf0 = w"
    using p assms(2) plot_features_shape [of to_uint16 "get_highway_color ''height_field''"
        feat_pixels "get_empty_map h w" highways hf0]
    by (simp_all add: plot_highways_def shape_get_empty_map)
  have s2: "shape_h hf2 = h" "shape_w hf2 = w"
    using c s0 by (auto simp: shape_assign_eq dest: assign_where_Inr(1,2) split: option.splits)
  show "shape_h hf3 = h" "shape_w hf3 = w"
    using g s2 by (auto dest: assign_where_Inr(1,2) split: option.splits)
qed

lemma height_field_base_nth:
  assumes "height_field_base to_uint16 highways h w gl cz = Inr hf3" "i < h" "j < w"
    and z: "to_uint16 0 = 0"
  shows "hf3 ! i ! j = (if mask_on gl i j then 8 else if mask_on cz i j then 0 else 4)"
proof -
  from assms(1) obtain hf0 hf2 where
    p: "plot_highways to_uint16 ''height_field'' get_highway_color (get_empty_map h w) highways
          = Inr hf0"
    and c: "(case cz of None \<Rightarrow> Inr (assign_eq hf0 0 4)
             | Some m \<Rightarrow> assign_where (assign_eq hf0 0 4) m 0) = Inr hf2"
    and g: "(case gl of None \<Rightarrow> Inr hf2 | Some m \<Rightarrow> assign_where hf2 m 8) = Inr hf3"
    by (auto simp: height_field_base_def bind_err_Inr Let_def)
  have hpos: "0 < h" using assms(2) by simp
  from p have p': "plot_features to_uint16 (get_highway_color ''height_field'') feat_pixels
                     (get_empty_map h w) highways = Inr hf0"
    by (simp add: plot_highways_def)
  have s0: "shape_h hf0 = h" "shape_w hf0 = w"
    using plot_features_shape [OF p'] hpos by (simp_all add: shape_get_empty_map)
  have "hf0 ! i ! j = (case top_color (get_highway_color ''height_field'') feat_pixels highways (i, j)
                         of None \<Rightarrow> get_empty_map h w ! i ! j | Some v \<Rightarrow> to_uint16 v)"
    using assms(2,3) hpos by (intro plot_features_nth [OF p']) (simp_all add: shape_get_empty_map)
  then have v0: "hf0 ! i ! j = 0"
  proof (cases "top_color (get_highway_color ''height_field'') feat_pixels highways (i, j)")
    case None
    assume "hf0 ! i ! j = (case top_color (get_highway_color ''height_field'') feat_pixels
                                  highways (i, j)
                           of None \<Rightarrow> get_empty_map h w ! i ! j | Some v \<Rightarrow> to_uint16 v)"
    with None assms(2,3) show ?thesis by (simp add: get_empty_map_nth)
  next
    case (Some v)
    assume "hf0 ! i ! j = (case top_color (get_highway_color ''height_field'') feat_pixels
                                  highways (i, j)
                           of None \<Rightarrow> get_empty_map h w ! i ! j | Some v \<Rightarrow> to_uint16 v)"
    moreover from Some have "v = 0" by (rule top_color_highway_height)
    ultimately show ?thesis using Some z by simp
  qed
  have v1: "assign_eq hf0 0 4 ! i ! j = 4"
    using assms(2,3) s0 v0 by (simp add: assign_eq_nth)
  have s2: "shape_h hf2 = h" "shape_w hf2 = w"
    and v2: "hf2 ! i ! j = (if mask_on cz i j then 0 else 4)"
    using c assms(2,3) s0 v1
    by (auto simp: mask_on_def shape_assign_eq dest: assign_where_Inr split: option.splits)
  show ?thesis
    using g assms(2,3) s2 v2
    by (auto simp: mask_on_def dest: assign_where_Inr split: option.splits)
qed

lemma get_green_lands_nth:
  assumes "get_green_lands resize tile_img seg = Inr g" "i < shape_h seg" "j < shape_w seg"
  shows "shape_h g = shape_h seg" "shape_w g = shape_w seg"
    "seg ! i ! j \<noteq> 0 \<Longrightarrow> g ! i ! j = 0"
  using assms
  by (auto simp: get_green_lands_def raster_mul_def Let_def shape_h_tabulate2
      shape_w_tabulate2_same shape_w_tabulate2 tabulate2_nth split: if_splits)

lemma env_masks_Some:
  assumes "env_masks resize (Some tile_img) seg = Inr (gl, cz, seg2)"
  obtains g seg1 where
    "get_green_lands resize tile_img seg = Inr g"
    "assign_where seg g 3 = Inr seg1"
    "assign_where seg1 (get_coast_zones resize tile_img (shape_h seg, shape_w seg)) 5 = Inr seg2"
    "gl = Some g"
    "cz = Some (get_coast_zones resize tile_img (shape_h seg, shape_w seg))"
proof -
  from assms obtain g seg1 where
    a: "get_green_lands resize tile_img seg = Inr g"
    and b: "assign_where seg g 3 = Inr seg1"
    and c: "assign_where seg1 (get_coast_zones resize tile_img (shape_h seg1, shape_w seg1)) 5 = Inr seg2"
    and d: "gl = Some g" "cz = Some (get_coast_zones resize tile_img (shape_h seg1, shape_w seg1))"
    by (auto simp: env_masks_def bind_err_Inr Let_def)
  from b have "shape_h seg1 = shape_h seg" "shape_w seg1 = shape_w seg"
    by (rule assign_where_Inr)+
  with a b c d that show thesis by simp
qed

lemma env_masks_shape:
  assumes "env_masks resize tile seg = Inr (gl, cz, seg2)"
  shows "shape_h seg2 = shape_h seg \<and> shape_w seg2 = shape_w seg"
proof (cases tile)
  case None
  with assms show ?thesis by (simp add: env_masks_def)
next
  case (Some tile_img)
  with assms obtain g seg1 where
    b: "assign_where seg g 3 = Inr seg1"
    and c: "assign_where seg1 (get_coast_zones resize tile_img (shape_h seg, shape_w seg)) 5 = Inr seg2"
    by (auto elim: env_masks_Some)
  from assign_where_Inr(1,2) [OF b] assign_where_Inr(1,2) [OF c] show ?thesis by simp
qed

text \<open>
  C8: when a tile image is present, the coast mask is computed from the image and
  the shape of the segmentation map alone, while the green-land mask is 0 wherever
  the segmentation map already holds a class; every pixel of the coast mask is
  assigned class 5, whatever class it held before (class 1 of a highway included),
  and the other pixels keep class 3 of the green-land mask or their prior class.
\<close>

theorem coast_overwrites_prior_class:
  assumes "env_masks resize (Some tile_img) seg_map = Inr (gl, cz, seg_map2)"
    and "i < shape_h seg_map" and "j < shape_w seg_map"
  shows "cz = Some (get_coast_zones resize tile_img (shape_h seg_map, shape_w seg_map))
       \<and> (\<exists>g. gl = Some g \<and> (seg_map ! i ! j \<noteq> 0 \<longrightarrow> g ! i ! j = 0))
       \<and> (mask_on cz i j \<longrightarrow> seg_map2 ! i ! j = 5)
       \<and> (\<not> mask_on cz i j \<longrightarrow>
            seg_map2 ! i ! j = (if mask_on gl i j then 3 else seg_map ! i ! j))"
proof -
  from assms(1) obtain g seg1 where
    a: "get_green_lands resize tile_img seg_map = Inr g"
    and b: "assign_where seg_map g 3 = Inr seg1"
    and c: "assign_where seg1 (get_coast_zones resize tile_img (shape_h seg_map, shape_w seg_map)) 5
              = Inr seg_map2"
    and d: "gl = Some g"
      "cz = Some (get_coast_zones resize tile_img (shape_h seg_map, shape_w seg_map))"
    by (rule env_masks_Some)
  have s1: "shape_h seg1 = shape_h seg_map" "shape_w seg1 = shape_w seg_map"
    using b by (rule assign_where_Inr)+
  have v1: "seg1 ! i ! j = (if g ! i ! j \<noteq> 0 then 3 else seg_map ! i ! j)"
    using assign_where_Inr(5) [OF b assms(2,3)] .
  have v2: "seg_map2 ! i ! j
              = (if get_coast_zones resize tile_img (shape_h seg_map, shape_w seg_map) ! i ! j \<noteq> 0
                 then 5 else seg1 ! i ! j)"
    using assign_where_Inr(5) [OF c] assms(2,3) s1 by simp
  have g0: "seg_map ! i ! j \<noteq> 0 \<longrightarrow> g ! i ! j = 0"
    using get_green_lands_nth(3) [OF a assms(2,3)] by blast
  from d g0 v1 v2 show ?thesis by (simp add: mask_on_def)
qed

lemma get_osm_images_Inr:
  assumes "get_osm_images to_float resize to_uint16 highways footprints h w tile
             = Inr (hf, seg, ctr)"
  obtains seg0 gl cz seg2 seg3 hf3 where
    "plot_highways (\<lambda>c. c) ''seg_map'' get_highway_color (get_empty_map h w) highways = Inr seg0"
    "env_masks resize tile seg0 = Inr (gl, cz, seg2)"
    "plot_footprints (\<lambda>c. c) ''seg_map'' (get_footprint_color to_float) seg2 footprints False
       = Inr seg3"
    "seg = assign_eq seg3 0 6"
    "plot_footprints (\<lambda>c. c) ''footprint_contour'' (get_footprint_color to_float)
       (get_empty_map h w) footprints True = Inr ctr"
    "height_field_base to_uint16 highways h w gl cz = Inr hf3"
    "plot_footprints to_uint16 ''height_field'' (get_footprint_color to_float) hf3 footprints False
       = Inr hf"
  using assms
  by (auto simp: get_osm_images_def bind_err_Inr Let_def split_beta astype_uint16_same)

lemma seg_shape:
  assumes "plot_highways store ''seg_map'' get_highway_color (get_empty_map h w) highways = Inr seg0"
    "env_masks resize tile seg0 = Inr (gl, cz, seg2)"
    "plot_footprints store ''seg_map'' col seg2 footprints False = Inr seg3"
  shows "shape_h seg3 = h" "0 < h \<Longrightarrow> shape_w seg3 = w"
proof -
  have "shape_h seg0 = shape_h (get_empty_map h w :: int raster)
          \<and> shape_w seg0 = shape_w (get_empty_map h w :: int raster)"
    using assms(1) by (simp add: plot_highways_def plot_features_shape)
  moreover note env_masks_shape [OF assms(2)]
  moreover have "shape_h seg3 = shape_h seg2 \<and> shape_w seg3 = shape_w seg2"
    using assms(3) by (simp add: plot_footprints_def plot_features_shape)
  ultimately show "shape_h seg3 = h" "0 < h \<Longrightarrow> shape_w seg3 = w"
    by (simp_all add: shape_get_empty_map)
qed

text \<open>
  C6: when the compositor returns, the segmentation map has the shape of the tile
  and none of its pixels is 0: it is the map left by the painting steps (highways,
  environment masks, footprints) with class 6 at every pixel that those steps left
  at 0, and the painted class at every other pixel.
\<close>

theorem seg_map_never_zero:
  assumes "get_osm_images to_float resize to_uint16 highways footprints h w tile
             = Inr (hf, seg, ctr)"
  shows "length seg = h \<and> (\<forall>row \<in> set seg. length row = w \<and> 0 \<notin> set row)
       \<and> (\<exists>seg0 gl cz seg2 seg3.
            plot_highways (\<lambda>c. c) ''seg_map'' get_highway_color (get_empty_map h w) highways
              = Inr seg0
          \<and> env_masks resize tile seg0 = Inr (gl, cz, seg2)
          \<and> plot_footprints (\<lambda>c. c) ''seg_map'' (get_footprint_color to_float) seg2 footprints
              False = Inr seg3
          \<and> (\<forall>i < h. \<forall>j < w. seg ! i ! j = (if seg3 ! i ! j = 0 then 6 else seg3 ! i ! j)))"
proof -
  from assms obtain seg0 gl cz seg2 seg3 where
    a: "plot_highways (\<lambda>c. c) ''seg_map'' get_highway_color (get_empty_map h w) highways = Inr seg0"
    and b: "env_masks resize tile seg0 = Inr (gl, cz, seg2)"
    and c: "plot_footprints (\<lambda>c. c) ''seg_map'' (get_footprint_color to_float) seg2 footprints
              False = Inr seg3"
    and d: "seg = assign_eq seg3 0 6"
    by (rule get_osm_images_Inr)
  note s = seg_shape [OF a b c]
  have len: "length seg = h" using d s(1) by (simp add: assign_eq_def tabulate2_def)
  have rows: "length row = w \<and> 0 \<notin> set row" if "row \<in> set seg" for row
  proof -
    from that d s(1) have "0 < h" by (auto simp: assign_eq_def tabulate2_def)
    with that d s show ?thesis by (auto simp: assign_eq_def tabulate2_def)
  qed
  have px: "seg ! i ! j = (if seg3 ! i ! j = 0 then 6 else seg3 ! i ! j)" if "i < h" "j < w" for i j
  proof -
    from that(1) have "0 < h" by simp
    with that s d show ?thesis by (simp add: assign_eq_nth)
  qed
  from a b c px have "\<exists>seg0 gl cz seg2 seg3.
            plot_highways (\<lambda>c. c) ''seg_map'' get_highway_color (get_empty_map h w) highways
              = Inr seg0
          \<and> env_masks resize tile seg0 = Inr (gl, cz, seg2)
          \<and> plot_footprints (\<lambda>c. c) ''seg_map'' (get_footprint_color to_float) seg2 footprints
              False = Inr seg3
          \<and> (\<forall>i < h. \<forall>j < w. seg ! i ! j = (if seg3 ! i ! j = 0 then 6 else seg3 ! i ! j))"
    by blast
  with len rows show ?thesis by blast
qed

text \<open>
  C5 (amended): in the composed height field, a pixel holds the value of the last
  footprint that paints it, converted to the element type of the array (the value
  itself when it lies in the range 0..65535 of that type); a pixel that no footprint
  paints holds 8 on the green-land mask, otherwise 0 on the coast mask, otherwise 4.
  Highways paint 0 into the empty raster, so a pixel painted by a highway is treated
  as unfilled and holds 4 unless it is overridden.
\<close>

theorem height_field_precedence:
  assumes "get_osm_images to_float resize to_uint16 highways footprints h w tile
             = Inr (hf, seg, ctr)"
    and "i < h" and "j < w"
    and conv: "\<forall>v. 0 \<le> v \<and> v \<le> 65535 \<longrightarrow> to_uint16 v = word_of_int v"
  shows "\<exists>seg0 gl cz seg2.
           plot_highways (\<lambda>c. c) ''seg_map'' get_highway_color (get_empty_map h w) highways
             = Inr seg0
         \<and> env_masks resize tile seg0 = Inr (gl, cz, seg2)
         \<and> hf ! i ! j =
             (case top_color (get_footprint_color to_float ''height_field'') feat_pixels
                     footprints (i, j) of
                Some v \<Rightarrow> to_uint16 v
              | None \<Rightarrow> if mask_on gl i j then 8 else if mask_on cz i j then 0 else 4)
         \<and> (\<forall>v. top_color (get_footprint_color to_float ''height_field'') feat_pixels
                     footprints (i, j) = Some v \<and> 0 \<le> v \<and> v \<le> 65535
                \<longrightarrow> uint (hf ! i ! j) = v)"
proof -
  from assms(1) obtain seg0 gl cz seg2 hf3 where
    a: "plot_highways (\<lambda>c. c) ''seg_map'' get_highway_color (get_empty_map h w) highways = Inr seg0"
    and b: "env_masks resize tile seg0 = Inr (gl, cz, seg2)"
    and e: "height_field_base to_uint16 highways h w gl cz = Inr hf3"
    and f: "plot_footprints to_uint16 ''height_field'' (get_footprint_color to_float) hf3
              footprints False = Inr hf"
    by (rule get_osm_images_Inr)
  have hpos: "0 < h" using assms(2) by simp
  have z: "to_uint16 0 = 0" using conv by simp
  note s3 = height_field_base_shape [OF e hpos]
  have "hf ! i ! j = (case top_color (get_footprint_color to_float ''height_field'') feat_pixels
                             footprints (i, j) of
                        None \<Rightarrow> hf3 ! i ! j | Some v \<Rightarrow> to_uint16 v)"
    using f assms(2,3) s3 by (intro plot_features_nth) (simp_all add: plot_footprints_def)
  then have v: "hf ! i ! j =
             (case top_color (get_footprint_color to_float ''height_field'') feat_pixels
                     footprints (i, j) of
                Some v \<Rightarrow> to_uint16 v
              | None \<Rightarrow> if mask_on gl i j then 8 else if mask_on cz i j then 0 else 4)"
    using height_field_base_nth [OF e assms(2,3) z] by (simp split: option.splits)
  have r: "uint (hf ! i ! j) = v"
    if "top_color (get_footprint_color to_float ''height_field'') feat_pixels footprints (i, j)
          = Some v" "0 \<le> v" "v \<le> 65535" for v
  proof -
    from that conv v have "hf ! i ! j = word_of_int v" by simp
    moreover have "uint (word_of_int v :: 16 word) = v"
      using that(2,3) by (simp add: uint_word_of_int take_bit_int_eq_self)
    ultimately show ?thesis by simp
  qed
  from a b v r show ?thesis by blast
qed

lemma shape_w_remove_mask_outliers: "shape_w (remove_mask_outliers msk) = shape_w msk"
  by (simp add: remove_mask_outliers_tabulate shape_w_tabulate2_same)

lemma env_masks_total:
  assumes g: "shape_h (resize (in_range t (209, 217, 217) (219, 236, 233)) (shape_w seg, shape_h seg))
                = shape_h seg"
       "shape_w (resize (in_range t (209, 217, 217) (219, 236, 233)) (shape_w seg, shape_h seg))
                = shape_w seg"
    and c: "shape_h (resize (in_range t (219, 219, 195) (235, 235, 219)) (shape_w seg, shape_h seg))
                = shape_h seg"
       "shape_w (resize (in_range t (219, 219, 195) (235, 235, 219)) (shape_w seg, shape_h seg))
                = shape_w seg"
  shows "\<exists>gl seg1 seg2. env_masks resize (Some t) seg
           = Inr (Some gl, Some (get_coast_zones resize t (shape_h seg, shape_w seg)), seg2)"
proof -
  obtain gl where gl: "get_green_lands resize t seg = Inr gl"
    "shape_h gl = shape_h seg" "shape_w gl = shape_w seg"
    using g
    by (simp add: get_green_lands_def Let_def raster_mul_def shape_h_remove_mask_outliers
        shape_w_remove_mask_outliers shape_h_tabulate2 shape_w_tabulate2_same)
  obtain seg1 where seg1: "assign_where seg gl 3 = Inr seg1"
    "shape_h seg1 = shape_h seg" "shape_w seg1 = shape_w seg"
    using gl(2,3) by (simp add: assign_where_def shape_h_tabulate2 shape_w_tabulate2_same)
  have "shape_h (get_coast_zones resize t (shape_h seg, shape_w seg)) = shape_h seg"
    "shape_w (get_coast_zones resize t (shape_h seg, shape_w seg)) = shape_w seg"
    using c by (simp_all add: get_coast_zones_def Let_def shape_h_remove_mask_outliers
        shape_w_remove_mask_outliers)
  then obtain seg2 where
    "assign_where seg1 (get_coast_zones resize t (shape_h seg, shape_w seg)) 5 = Inr seg2"
    using seg1(2,3) by (simp add: assign_where_def)
  with gl(1) seg1 show ?thesis
    by (simp add: env_masks_def bind_err_def Let_def)
qed

lemma water97_coast: "in_range water97 (219, 219, 195) (235, 235, 219) = [replicate 97 255]"
  by (simp add: in_range_def water97_def)

lemma water97_green: "in_range water97 (209, 217, 217) (219, 236, 233) = [replicate 97 0]"
  by (simp add: in_range_def water97_def)

lemma seg97_shape: "shape_h seg97 = 1" "shape_w seg97 = 97"
  by (simp_all add: seg97_def shape_h_def shape_w_def)

theorem coast_overwrites_prior_class_witness:
  "(case env_masks same_size (Some water97) seg97 of
      Inl e \<Rightarrow> False
    | Inr (gl, cz, seg_map2) \<Rightarrow>
        cz = Some (get_coast_zones same_size water97 (1, 97))
        \<and> mask_on cz 0 0 \<and> seg97 ! 0 ! 0 = 1 \<and> seg_map2 ! 0 ! 0 = 5)"
proof -
  obtain gl seg2 where
    e: "env_masks same_size (Some water97) seg97
          = Inr (Some gl, Some (get_coast_zones same_size water97 (shape_h seg97, shape_w seg97)), seg2)"
    using env_masks_total [of same_size water97 seg97]
    by (auto simp: same_size_def water97_coast water97_green seg97_shape shape_line)
  have m: "mask_on (Some (get_coast_zones same_size water97 (shape_h seg97, shape_w seg97))) 0 0"
    by (simp add: mask_on_def get_coast_zones_def same_size_def water97_coast
        remove_mask_outliers_line N_PIXELS_THRES_def)
  have "seg2 ! 0 ! 0 = 5"
    using coast_overwrites_prior_class [OF e, of 0 0] m by (simp add: seg97_shape)
  moreover have "seg97 ! 0 ! 0 = 1" by (simp add: seg97_def)
  ultimately show ?thesis using e m by (simp add: seg97_shape)
qed

text \<open>
  C5 (as stated): a pixel painted by a highway and not overridden holds 0. On a
  2 x 2 tile with a highway on the pixel (0, 0), no footprint and no tile image,
  the segmentation map holds class 1 at (0, 0) and the height field holds 4 there.
\<close>

theorem highway_height_counterexample:
  "get_osm_images no_float same_size wrap_uint16 [road00] [] 2 2 None
     = Inr ([[4, 4], [4, 4]], [[1, 6], [6, 6]], [[0, 0], [0, 0]])"
  by (simp add: get_osm_images_def height_field_base_def env_masks_def bind_err_def
      plot_highways_def plot_footprints_def road00_def get_highway_color_def paint_def
      assign_eq_def get_empty_map_def zeros_def tabulate2_def shape_h_def shape_w_def
      astype_uint16_def wrap_uint16_def upt_conv_Cons)

lemma sample_seg0:
  "plot_highways (\<lambda>c. c) ''seg_map'' get_highway_color (get_empty_map 2 2) [road00]
     = Inr [[1, 0], [0, 0]]"
  by (simp add: plot_highways_def road00_def get_highway_color_def paint_def
      get_empty_map_def zeros_def tabulate2_def shape_h_def shape_w_def upt_conv_Cons)

lemma sample_env: "env_masks same_size None [[1, 0], [0, 0]] = Inr (None, None, [[1, 0], [0, 0]])"
  by (simp add: env_masks_def)

lemma sample_seg3:
  "plot_footprints (\<lambda>c. c) ''seg_map'' (get_footprint_color float12) [[1, 0], [0, 0]] [house11]
     False = Inr [[1, 0], [0, 2]]"
  by (simp add: plot_footprints_def house11_def get_footprint_color_def tag_equals_def paint_def
      tabulate2_def shape_h_def shape_w_def upt_conv_Cons)

lemma sample_tile:
  "get_osm_images float12 same_size wrap_uint16 [road00] [house11] 2 2 None
     = Inr ([[4, 4], [4, 12]], [[1, 6], [6, 2]], [[0, 0], [0, 1]])"
  by (simp add: get_osm_images_def height_field_base_def env_masks_def bind_err_def
      plot_highways_def plot_footprints_def road00_def house11_def float12_def py_int_def
      get_highway_color_def get_footprint_color_def tag_equals_def paint_def
      assign_eq_def get_empty_map_def zeros_def tabulate2_def shape_h_def shape_w_def
      astype_uint16_def wrap_uint16_def upt_conv_Cons)

lemma sample_top:
  "top_color (get_footprint_color float12 ''height_field'') feat_pixels [house11] (1, 1) = Some 12"
  "top_color (get_footprint_color float12 ''height_field'') feat_pixels [house11] (0, 0) = None"
  by (simp_all add: house11_def float12_def py_int_def get_footprint_color_def tag_equals_def)

theorem height_field_precedence_witness:
  "get_osm_images float12 same_size wrap_uint16 [road00] [house11] 2 2 None
     = Inr ([[4, 4], [4, 12]], [[1, 6], [6, 2]], [[0, 0], [0, 1]])
   \<and> wrap_uint16 12 = word_of_int 12
   \<and> top_color (get_footprint_color float12 ''height_field'') feat_pixels [house11] (1, 1)
       = Some 12
   \<and> uint ([[4, 4], [4, 12 :: 16 word]] ! 1 ! 1) = 12
   \<and> top_color (get_footprint_color float12 ''height_field'') feat_pixels [house11] (0, 0)
       = None
   \<and> (0, 0) \<in> set (feat_pixels road00)
   \<and> [[4, 4], [4, 12 :: 16 word]] ! 0 ! 0 = 4"
proof -
  have conv: "\<forall>v. 0 \<le> v \<and> v \<le> 65535 \<longrightarrow> wrap_uint16 v = word_of_int v"
    by (simp add: wrap_uint16_def)
  have i: "(1::nat) < 2" "(0::nat) < 2" by simp_all
  from height_field_precedence [OF sample_tile i(1) i(1) conv] sample_top(1)
  have a: "uint ([[4, 4], [4, 12 :: 16 word]] ! 1 ! 1) = 12" by auto
  from height_field_precedence [OF sample_tile i(2) i(2) conv] sample_top(2)
  obtain gl cz where
    "env_masks same_size None [[1, 0], [0, 0]] = Inr (gl, cz, [[1, 0], [0, 0]])
     \<and> [[4, 4], [4, 12 :: 16 word]] ! 0 ! 0
         = (if mask_on gl 0 0 then 8 else if mask_on cz 0 0 then 0 else 4)"
    by (auto simp: sample_seg0 sample_env)
  then have b: "[[4, 4], [4, 12 :: 16 word]] ! 0 ! 0 = 4"
    by (simp add: sample_env mask_on_def)
  have c: "wrap_uint16 12 = word_of_int 12" by (simp add: wrap_uint16_def)
  have d: "(0, 0) \<in> set (feat_pixels road00)" by (simp add: road00_def)
  from sample_tile sample_top a b c d show ?thesis by blast
qed

theorem seg_map_never_zero_witness:
  "get_osm_images float12 same_size wrap_uint16 [road00] [house11] 2 2 None
     = Inr ([[4, 4], [4, 12]], [[1, 6], [6, 2]], [[0, 0], [0, 1]])
   \<and> length [[1, 6], [6, 2::int]] = 2
   \<and> length [1, 6::int] = 2 \<and> 0 \<notin> set [1, 6::int]
   \<and> length [6, 2::int] = 2 \<and> 0 \<notin> set [6, 2::int]
   \<and> plot_highways (\<lambda>c. c) ''seg_map'' get_highway_color (get_empty_map 2 2) [road00]
       = Inr [[1, 0], [0, 0]]
   \<and> env_masks same_size None [[1, 0], [0, 0]] = Inr (None, None, [[1, 0], [0, 0]])
   \<and> plot_footprints (\<lambda>c. c) ''seg_map'' (get_footprint_color float12) [[1, 0], [0, 0]]
       [house11] False = Inr [[1, 0], [0, 2]]
   \<and> [[1, 0], [0, 2::int]] ! 0 ! 1 = 0 \<and> [[1, 6], [6, 2::int]] ! 0 ! 1 = 6
   \<and> [[1, 0], [0, 2::int]] ! 1 ! 1 = 2 \<and> [[1, 6], [6, 2::int]] ! 1 ! 1 = 2"
proof -
  note t = seg_map_never_zero [OF sample_tile]
  from t have r: "length [[1, 6], [6, 2::int]] = 2
     \<and> length [1, 6::int] = 2 \<and> 0 \<notin> set [1, 6::int]
     \<and> length [6, 2::int] = 2 \<and> 0 \<notin> set [6, 2::int]" by simp
  from t obtain seg3 where
    p: "plot_footprints (\<lambda>c. c) ''seg_map'' (get_footprint_color float12) [[1, 0], [0, 0]]
          [house11] False = Inr seg3"
    and px: "\<forall>i < 2. \<forall>j < 2. [[1, 6], [6, 2::int]] ! i ! j
               = (if seg3 ! i ! j = 0 then 6 else seg3 ! i ! j)"
    by (auto simp: sample_seg0 sample_env)
  from p have s3: "seg3 = [[1, 0], [0, 2]]" by (simp add: sample_seg3)
  have "(0::nat) < 2" "(1::nat) < 2" by simp_all
  with px s3 have v: "[[1, 6], [6, 2::int]] ! 0 ! 1 = 6" "[[1, 6], [6, 2::int]] ! 1 ! 1 = 2"
    by simp_all
  have u: "[[1, 0], [0, 2::int]] ! 0 ! 1 = 0" "[[1, 0], [0, 2::int]] ! 1 ! 1 = 2" by simp_all
  from sample_tile r sample_seg0 sample_env sample_seg3 u v show ?thesis by blast
qed

subsection \<open>Tile fetcher\<close>












subsection \<open>Camera Track Aligner\<close>

lemma sum_list_shift:
  "sum_list (map (\<lambda>p. f p - c) ps) = sum_list (map f ps) - real (length ps) * (c::real)"
  by (induction ps) (simp_all add: algebra_simps)

lemma aligned_positions_length: "length (aligned_positions n ps) = length ps"
  by (simp add: aligned_positions_def vol_center_def track_offset_def)

lemma aligned_positions_nth:
  assumes "i < length ps"
  shows "aligned_positions n ps ! i =
           (ps ! i)\<lparr>pos_x := pos_x (ps ! i) - (fst (track_offset ps) - real_of_int ((n - 1) div 2)),
                    pos_y := pos_y (ps ! i) - (snd (track_offset ps) - real_of_int ((n - 1) div 2))\<rparr>"
  using assms by (simp add: aligned_positions_def vol_center_def track_offset_def)

lemma relative_positions_length: "length (relative_positions f cx cy poses) = length poses"
  by (simp add: relative_positions_def)

lemma relative_positions_nth:
  assumes "i < length poses"
  shows "relative_positions f cx cy poses ! i =
     \<lparr>pos_x = fst (f (longitude (poses ! i)) (latitude (poses ! i))) - cx,
      pos_y = snd (f (longitude (poses ! i)) (latitude (poses ! i))) - cy,
      pos_z = altitude (poses ! i)\<rparr>"
  using assms by (simp add: relative_positions_def split_beta)

lemma aligned_positions_mean_x:
  assumes "ps \<noteq> []"
  shows "np_mean (map (\<lambda>p. pos_x p - real_of_int ((n - 1) div 2)) (aligned_positions n ps)) = 0"
proof -
  have "map (\<lambda>p. pos_x p - real_of_int ((n - 1) div 2)) (aligned_positions n ps)
        = map (\<lambda>p. pos_x p - np_mean (map pos_x ps)) ps"
    by (simp add: aligned_positions_def vol_center_def track_offset_def o_def)
  then show ?thesis using assms by (simp add: np_mean_def sum_list_shift)
qed

lemma aligned_positions_mean_y:
  assumes "ps \<noteq> []"
  shows "np_mean (map (\<lambda>p. pos_y p - real_of_int ((n - 1) div 2)) (aligned_positions n ps)) = 0"
proof -
  have "map (\<lambda>p. pos_y p - real_of_int ((n - 1) div 2)) (aligned_positions n ps)
        = map (\<lambda>p. pos_y p - np_mean (map pos_y ps)) ps"
    by (simp add: aligned_positions_def vol_center_def track_offset_def o_def)
  then show ?thesis using assms by (simp add: np_mean_def sum_list_shift)
qed

lemma camera_positions_z:
  "map pos_z (camera_positions f cx cy n poses) = map altitude poses"
  by (simp add: camera_positions_def aligned_positions_def vol_center_def track_offset_def
      relative_positions_def o_def split_beta)

text \<open>
  C4: for a track with at least one frame, the track-wide offset is the mean over
  the frames of (frame pixel position - target pixel position); every frame's
  position is its relative position minus that one offset, moved to the centre of
  the voxel volume; the mean of the corrected positions relative to that centre is
  0 in x and y, and 0 in z when the altitudes sum to 0. (Exact arithmetic on reals
  stands for the floating-point computation.)
\<close>

theorem track_offset_correction:
  assumes "poses \<noteq> []"
  shows "track_offset (relative_positions f cx cy poses)
           = (np_mean (map (\<lambda>g. fst (f (longitude g) (latitude g)) - cx) poses),
              np_mean (map (\<lambda>g. snd (f (longitude g) (latitude g)) - cy) poses))
       \<and> (\<forall>i < length poses.
            pos_x (camera_positions f cx cy n poses ! i)
              = pos_x (relative_positions f cx cy poses ! i)
                - fst (track_offset (relative_positions f cx cy poses))
                + real_of_int (fst (vol_center n))
          \<and> pos_y (camera_positions f cx cy n poses ! i)
              = pos_y (relative_positions f cx cy poses ! i)
                - snd (track_offset (relative_positions f cx cy poses))
                + real_of_int (fst (snd (vol_center n))))
       \<and> np_mean (map (\<lambda>p. pos_x p - real_of_int (fst (vol_center n)))
                      (camera_positions f cx cy n poses)) = 0
       \<and> np_mean (map (\<lambda>p. pos_y p - real_of_int (fst (snd (vol_center n))))
                      (camera_positions f cx cy n poses)) = 0
       \<and> (sum_list (map altitude poses) = 0 \<longrightarrow>
            np_mean (map (\<lambda>p. pos_z p - real_of_int (snd (snd (vol_center n))))
                      (camera_positions f cx cy n poses)) = 0)"
proof -
  let ?rel = "relative_positions f cx cy poses"
  have ne: "?rel \<noteq> []" using assms by (simp add: relative_positions_def)
  have a: "track_offset ?rel
           = (np_mean (map (\<lambda>g. fst (f (longitude g) (latitude g)) - cx) poses),
              np_mean (map (\<lambda>g. snd (f (longitude g) (latitude g)) - cy) poses))"
    by (simp add: track_offset_def relative_positions_def o_def split_beta)
  have b: "\<forall>i < length poses.
            pos_x (camera_positions f cx cy n poses ! i)
              = pos_x (?rel ! i) - fst (track_offset ?rel) + real_of_int (fst (vol_center n))
          \<and> pos_y (camera_positions f cx cy n poses ! i)
              = pos_y (?rel ! i) - snd (track_offset ?rel) + real_of_int (fst (snd (vol_center n)))"
    by (simp add: camera_positions_def aligned_positions_nth relative_positions_length
        vol_center_def)
  have c: "np_mean (map (\<lambda>p. pos_x p - real_of_int (fst (vol_center n)))
                      (camera_positions f cx cy n poses)) = 0"
    using aligned_positions_mean_x [OF ne] by (simp add: camera_positions_def vol_center_def)
  have d: "np_mean (map (\<lambda>p. pos_y p - real_of_int (fst (snd (vol_center n))))
                      (camera_positions f cx cy n poses)) = 0"
    using aligned_positions_mean_y [OF ne] by (simp add: camera_positions_def vol_center_def)
  have e: "sum_list (map altitude poses) = 0 \<longrightarrow>
            np_mean (map (\<lambda>p. pos_z p - real_of_int (snd (snd (vol_center n))))
                      (camera_positions f cx cy n poses)) = 0"
  proof
    assume s: "sum_list (map altitude poses) = 0"
    have "map (\<lambda>p. pos_z p - real_of_int (snd (snd (vol_center n))))
              (camera_positions f cx cy n poses) = map pos_z (camera_positions f cx cy n poses)"
      by (simp add: vol_center_def)
    then show "np_mean (map (\<lambda>p. pos_z p - real_of_int (snd (snd (vol_center n))))
                      (camera_positions f cx cy n poses)) = 0"
      using s by (simp add: camera_positions_z np_mean_def)
  qed
  from a b c d e show ?thesis by blast
qed

theorem track_offset_correction_witness:
  "sample_track \<noteq> []
   \<and> sum_list (map altitude sample_track) = 0
   \<and> track_offset (relative_positions (\<lambda>lng lat. (lng, lat)) 0 0 sample_track) = (2, 1)
   \<and> camera_positions (\<lambda>lng lat. (lng, lat)) 0 0 5 sample_track
       = [\<lparr>pos_x = 3, pos_y = 2, pos_z = -1\<rparr>, \<lparr>pos_x = 1, pos_y = 2, pos_z = 1\<rparr>]
   \<and> np_mean (map (\<lambda>p. pos_x p - real_of_int (fst (vol_center 5)))
         (camera_positions (\<lambda>lng lat. (lng, lat)) 0 0 5 sample_track)) = 0
   \<and> np_mean (map (\<lambda>p. pos_y p - real_of_int (fst (snd (vol_center 5))))
         (camera_positions (\<lambda>lng lat. (lng, lat)) 0 0 5 sample_track)) = 0
   \<and> np_mean (map (\<lambda>p. pos_z p - real_of_int (snd (snd (vol_center 5))))
         (camera_positions (\<lambda>lng lat. (lng, lat)) 0 0 5 sample_track)) = 0"
  using track_offset_correction [of sample_track "\<lambda>lng lat. (lng, lat)" 0 0 5]
  by (simp add: sample_track_def camera_positions_def aligned_positions_def
      relative_positions_def vol_center_def track_offset_def np_mean_def)

text \<open>
  C9: the offset correction changes only x and y: the z component of every aligned
  frame position is the altitude read from the camera file; no offset is computed
  for z.
\<close>

theorem camera_z_is_altitude:
  "length (camera_positions f cx cy n poses) = length poses
   \<and> (\<forall>i < length poses. pos_z (camera_positions f cx cy n poses ! i) = altitude (poses ! i))"
proof -
  have l: "length (camera_positions f cx cy n poses) = length poses"
    by (simp add: camera_positions_def aligned_positions_length relative_positions_length)
  have "\<forall>i < length poses. pos_z (camera_positions f cx cy n poses ! i) = altitude (poses ! i)"
    by (simp add: camera_positions_def aligned_positions_nth relative_positions_nth
        relative_positions_length)
  with l show ?thesis by blast
qed

theorem camera_z_is_altitude_witness:
  "(1::nat) < length sample_track
   \<and> length (camera_positions (\<lambda>lng lat. (lng, lat)) 0 0 5 sample_track) = 2
   \<and> pos_z (camera_positions (\<lambda>lng lat. (lng, lat)) 0 0 5 sample_track ! 1) = 1
   \<and> altitude (sample_track ! 1) = 1"
  using camera_z_is_altitude [of "\<lambda>lng lat. (lng, lat)" 0 0 5 sample_track]
  by (simp add: sample_track_def)

end
